theory Spec2Isabelle
  imports Complex_Main
begin

section \<open>Numbers and the random source\<close>

text \<open>
  The program computes with JavaScript numbers. A finite number is modelled by the real it
  denotes, so the rounding of IEEE doubles is not part of the model. The values that the
  checker tests for with \<open>isFinite\<close>, the infinities and NaN, are modelled explicitly by
  the type \<open>jsnum\<close> below. The parameters of a channel are finite numbers throughout.

  \<open>Math.random()\<close> is an infinite sequence of draws \<open>rnd\<close> from \<open>[0, 1)\<close>; the
  state of the generator is the index of the next draw, passed in and returned.
\<close>

type_synonym random = "nat \<Rightarrow> real"

definition jsRem1 :: "real \<Rightarrow> real" where
  \<comment> \<open>\<open>x % 1\<close>: the remainder has the sign of the dividend (truncating division).\<close>
  "jsRem1 x = x - of_int (if 0 \<le> x then \<lfloor>x\<rfloor> else \<lceil>x\<rceil>)"

partial_function (option) nonzeroDraw :: "random \<Rightarrow> nat \<Rightarrow> (real \<times> nat) option" where
  \<comment> \<open>\<open>let u = 0; while (u === 0) u = Math.random();\<close> A loop that never sees a
      nonzero draw does not return: the value \<open>None\<close>.\<close>
  "nonzeroDraw rnd i = (if rnd i = 0 then nonzeroDraw rnd (Suc i) else Some (rnd i, Suc i))"

definition randn :: "random \<Rightarrow> nat \<Rightarrow> (real \<times> nat) option" where
  \<comment> \<open>Box-Muller, from two nonzero draws.\<close>
  "randn rnd i =
     (case nonzeroDraw rnd i of
        None \<Rightarrow> None
      | Some (u, j) \<Rightarrow>
          (case nonzeroDraw rnd j of
             None \<Rightarrow> None
           | Some (v, k) \<Rightarrow> Some (sqrt (- 2 * ln u) * cos (2 * pi * v), k)))"

section \<open>Waveform generator\<close>

text \<open>
  The repository holds two versions of the application, both with a function
  \<open>waveformSample\<close>: the plain JavaScript one (suffix \<open>_jsx\<close>) and the one with type
  annotations (suffix \<open>_tsx\<close>). The destructured parameter object
  \<open>{ amplitude, frequency, phase, dc, difficulty, noise = 0 }\<close> is passed as separate
  arguments; an absent \<open>noise\<close> is \<open>None\<close> and defaults to 0.
\<close>

definition difficultyNoise :: "string \<Rightarrow> real \<Rightarrow> real option \<Rightarrow> real" where
  \<comment> \<open>\<open>let n = noise; if (difficulty === "intermedio") n += 0.02 * amplitude;
      if (difficulty === "avanzato") n += 0.05 * amplitude;\<close>\<close>
  "difficultyNoise difficulty amplitude noise =
     (let n0 = (case noise of None \<Rightarrow> 0 | Some n \<Rightarrow> n);
          n1 = (if difficulty = ''intermedio'' then n0 + 0.02 * amplitude else n0)
      in if difficulty = ''avanzato'' then n1 + 0.05 * amplitude else n1)"

definition waveformSample_jsx ::
  "string \<Rightarrow> real \<Rightarrow> real \<Rightarrow> real \<Rightarrow> real \<Rightarrow> real \<Rightarrow> string \<Rightarrow> real option
     \<Rightarrow> random \<Rightarrow> nat \<Rightarrow> (real \<times> nat) option" where
  "waveformSample_jsx type t amplitude frequency phase dc difficulty noise rnd i =
     (let w = 2 * pi * frequency;
          baseSine = sin (w * t + phase);
          (y, i1) =
            (if type = ''sine'' then (amplitude * baseSine, i)
             else if type = ''square'' then
               (let s = sin (w * t + phase) in (amplitude * (if s \<ge> 0 then 1 else - 1), i))
             else if type = ''triangle'' then
               (let frac = jsRem1 (jsRem1 (t * frequency + phase / (2 * pi)) + 1)
                in (amplitude * (4 * \<bar>frac - 0.5\<bar> - 1), i))
             else if type = ''saw'' then
               (let frac = jsRem1 (jsRem1 (t * frequency + phase / (2 * pi)) + 1)
                in (amplitude * (2 * frac - 1), i))
             else if type = ''rectified'' then (amplitude * max 0 baseSine, i)
             else if type = ''am'' then
               (let m = 0.5 * (1 + sin (2 * pi * (frequency / 10) * t))
                in ((amplitude * m) * sin (w * t + phase), i))
             else if type = ''fm'' then
               (let dev = 0.2 * frequency;
                    instPhase = 2 * pi * (frequency * t
                      + (dev / (2 * pi)) * (1 - cos (2 * pi * (frequency / 8) * t))) + phase
                in (amplitude * sin instPhase, i))
             else if type = ''noise'' then (amplitude * (rnd i * 2 - 1), Suc i)
             else if type = ''sum2'' then
               (0.6 * amplitude * sin (w * t + phase)
                  + 0.6 * amplitude * sin (2 * w * t + phase / 3), i)
             else (amplitude * baseSine, i));
          y1 = y + dc;
          noiseStd = difficultyNoise difficulty amplitude noise
      in if noiseStd > 0 then
           (case randn rnd i1 of
              None \<Rightarrow> None
            | Some (g, i2) \<Rightarrow> Some (y1 + g * noiseStd, i2))
         else Some (y1, i1))"

definition NORM :: real where
  "NORM = 1.299038105676658"

definition waveformSample_tsx ::
  "string \<Rightarrow> real \<Rightarrow> real \<Rightarrow> real \<Rightarrow> real \<Rightarrow> real \<Rightarrow> string \<Rightarrow> real option
     \<Rightarrow> random \<Rightarrow> nat \<Rightarrow> (real \<times> nat) option" where
  "waveformSample_tsx type t amplitude frequency phase dc difficulty noise rnd i =
     (let w = 2 * pi * frequency;
          baseSine = sin (w * t + phase);
          (y, i1) =
            (if type = ''sine'' then (amplitude * baseSine, i)
             else if type = ''square'' then
               (amplitude * (if sin (w * t + phase) \<ge> 0 then 1 else - 1), i)
             else if type = ''triangle'' then
               (let frac = jsRem1 (jsRem1 (t * frequency + phase / (2 * pi)) + 1)
                in (amplitude * (4 * \<bar>frac - 0.5\<bar> - 1), i))
             else if type = ''saw'' then
               (let frac = jsRem1 (jsRem1 (t * frequency + phase / (2 * pi)) + 1)
                in (amplitude * (2 * frac - 1), i))
             else if type = ''rectified'' then (amplitude * max 0 baseSine, i)
             else if type = ''am'' then
               (let m = 0.5 * (1 + sin (2 * pi * (frequency / 10) * t))
                in ((amplitude * m) * sin (w * t + phase), i))
             else if type = ''fm'' then
               (let dev = 0.2 * frequency;
                    inst = 2 * pi * (frequency * t
                      + (dev / (2 * pi)) * (1 - cos (2 * pi * (frequency / 8) * t))) + phase
                in (amplitude * sin inst, i))
             else if type = ''noise'' then (amplitude * (rnd i * 2 - 1), Suc i)
             else if type = ''sum2'' then
               (let raw = sin (w * t + phase) + 0.5 * sin (2 * w * t + 2 * phase)
                in (amplitude * (raw / NORM), i))
             else (amplitude * baseSine, i));
          n = difficultyNoise difficulty amplitude noise
      in if n > 0 then
           (case randn rnd i1 of
              None \<Rightarrow> None
            | Some (g, i2) \<Rightarrow> Some (y + g * n + dc, i2))
         else Some (y + dc, i1))"

section \<open>Shared state and student view\<close>

record channel =
  chId :: nat
  enabled :: bool
  waveform :: string
  amplitude :: real
  frequency :: real
  phase :: real
  dc :: real
  color :: string
  noise :: "real option"

record shared =
  locked :: bool
  difficulty :: string
  showCorrect :: bool
  timeBase :: real
  sampleRate :: real
  durationDivs :: nat
  verticalDivs :: nat
  channels :: "channel list"

datatype field = Vmax | Vmin | Vpp | Period | Freq

text \<open>
  A measure object holds what the student typed for each field; a key that is absent reads
  as \<open>undefined\<close>, here \<open>None\<close>.
\<close>

type_synonym measure = "field \<rightharpoonup> string"

record view =
  vPerDiv :: real
  sPerDiv :: real
  vOffset :: real
  tOffset :: real
  name :: string
  surname :: string
  className :: string
  date :: string
  measures :: "nat \<rightharpoonup> measure"

section \<open>Canvas\<close>

text \<open>
  What \<open>ScopeCanvas\<close> draws is returned as a value: the grid lines and the central axes as
  segments, and one polyline per enabled channel with its colour, in the order of the
  strokes. The numbers of divisions and \<open>vPerDiv\<close> are taken to be positive: with a zero
  there the canvas coordinates of the source are infinite or NaN and have no counterpart
  in this model.
\<close>

type_synonym point = "real \<times> real"

type_synonym segment = "point \<times> point"

record drawing =
  gridLines :: "segment list"
  axes :: "segment list"
  traces :: "(string \<times> point list) list"

definition width :: real where
  "width = 980"

definition height :: real where
  "height = 520"

definition totalTime :: "shared \<Rightarrow> view \<Rightarrow> real" where
  "totalTime sh vw = sPerDiv vw * real (durationDivs sh)"

definition jsRound :: "real \<Rightarrow> real" where
  \<comment> \<open>\<open>Math.round\<close>: the nearest integer, a tie going up.\<close>
  "jsRound x = of_int \<lfloor>x + 1 / 2\<rfloor>"

fun loopPoints ::
  "(nat \<Rightarrow> nat \<Rightarrow> (point \<times> nat) option) \<Rightarrow> nat \<Rightarrow> nat \<Rightarrow> nat \<Rightarrow> (point list \<times> nat) option" where
  \<comment> \<open>\<open>for (let i = i0; i < i0 + k; i++) body(i)\<close>, the state of the random source
      going from one sample to the next.\<close>
  "loopPoints body 0 i s = Some ([], s)"
| "loopPoints body (Suc k) i s =
     (case body i s of
        None \<Rightarrow> None
      | Some (p, s1) \<Rightarrow>
          (case loopPoints body k (Suc i) s1 of
             None \<Rightarrow> None
           | Some (ps, s2) \<Rightarrow> Some (p # ps, s2)))"

fun drawChannels ::
  "(channel \<Rightarrow> nat \<Rightarrow> (point list \<times> nat) option) \<Rightarrow> channel list \<Rightarrow> nat
     \<Rightarrow> ((string \<times> point list) list \<times> nat) option" where
  \<comment> \<open>\<open>shared.channels.forEach((ch) => { if (!ch.enabled) return; ... })\<close>\<close>
  "drawChannels tr [] s = Some ([], s)"
| "drawChannels tr (ch # chs) s =
     (if \<not> enabled ch then drawChannels tr chs s
      else
        (case tr ch s of
           None \<Rightarrow> None
         | Some (ps, s1) \<Rightarrow>
             (case drawChannels tr chs s1 of
                None \<Rightarrow> None
              | Some (trs, s2) \<Rightarrow> Some ((color ch, ps) # trs, s2))))"

subsection \<open>JavaScript version\<close>

definition grid_jsx :: "shared \<Rightarrow> segment list" where
  "grid_jsx sh =
     (let dx = width / real (durationDivs sh);
          dy = height / real (verticalDivs sh)
      in map (\<lambda>i. ((real i * dx, 0), (real i * dx, height))) [0..<Suc (durationDivs sh)]
       @ map (\<lambda>j. ((0, real j * dy), (width, real j * dy))) [0..<Suc (verticalDivs sh)])"

definition axes_jsx :: "shared \<Rightarrow> view \<Rightarrow> segment list" where
  "axes_jsx sh vw =
     (let dy = height / real (verticalDivs sh);
          y0 = height / 2 - (vOffset vw / vPerDiv vw) * dy
      in [((0, y0), (width, y0))])"

definition sampleCount_jsx :: "shared \<Rightarrow> view \<Rightarrow> int" where
  "sampleCount_jsx sh vw = max 1000 \<lfloor>sampleRate sh * totalTime sh vw\<rfloor>"

definition samplePoint_jsx ::
  "shared \<Rightarrow> view \<Rightarrow> channel \<Rightarrow> random \<Rightarrow> nat \<Rightarrow> nat \<Rightarrow> (point \<times> nat) option" where
  "samplePoint_jsx sh vw ch rnd i s =
     (let N = sampleCount_jsx sh vw;
          dy = height / real (verticalDivs sh);
          t = (real i / (real_of_int N - 1)) * totalTime sh vw + tOffset vw
      in case waveformSample_jsx (waveform ch) t (amplitude ch) (frequency ch) (phase ch)
                (dc ch) (difficulty sh) (noise ch) rnd s of
           None \<Rightarrow> None
         | Some (yV, s1) \<Rightarrow>
             (let x = (real i / (real_of_int N - 1)) * width;
                  y = height / 2 - ((yV - vOffset vw) / vPerDiv vw) * dy
              in Some ((x, y), s1)))"

definition channelTrace_jsx ::
  "shared \<Rightarrow> view \<Rightarrow> random \<Rightarrow> channel \<Rightarrow> nat \<Rightarrow> (point list \<times> nat) option" where
  "channelTrace_jsx sh vw rnd ch s =
     loopPoints (samplePoint_jsx sh vw ch rnd) (nat (sampleCount_jsx sh vw)) 0 s"

definition ScopeCanvas_jsx :: "shared \<Rightarrow> view \<Rightarrow> random \<Rightarrow> nat \<Rightarrow> (drawing \<times> nat) option" where
  "ScopeCanvas_jsx sh vw rnd s =
     (case drawChannels (channelTrace_jsx sh vw rnd) (channels sh) s of
        None \<Rightarrow> None
      | Some (trs, s1) \<Rightarrow>
          Some (\<lparr>gridLines = grid_jsx sh, axes = axes_jsx sh vw, traces = trs\<rparr>, s1))"

subsection \<open>Version with type annotations\<close>

definition grid_tsx :: "shared \<Rightarrow> segment list" where
  "grid_tsx sh =
     (let dx = width / real (durationDivs sh);
          dy = height / real (verticalDivs sh)
      in map (\<lambda>i. let x = jsRound (real i * dx) + 0.5 in ((x, 0), (x, height)))
           [0..<Suc (durationDivs sh)]
       @ map (\<lambda>j. let y = jsRound (real j * dy) + 0.5 in ((0, y), (width, y)))
           [0..<Suc (verticalDivs sh)])"

definition axes_tsx :: "shared \<Rightarrow> view \<Rightarrow> segment list" where
  "axes_tsx sh vw =
     (let dy = height / real (verticalDivs sh);
          y0 = height / 2 - (vOffset vw / vPerDiv vw) * dy
      in [((width / 2, 0), (width / 2, height)), ((0, y0), (width, y0))])"

definition sampleCount_tsx :: "shared \<Rightarrow> view \<Rightarrow> int" where
  "sampleCount_tsx sh vw = max 2000 \<lfloor>sampleRate sh * totalTime sh vw\<rfloor>"

definition samplePoint_tsx ::
  "shared \<Rightarrow> view \<Rightarrow> channel \<Rightarrow> random \<Rightarrow> nat \<Rightarrow> nat \<Rightarrow> (point \<times> nat) option" where
  "samplePoint_tsx sh vw ch rnd i s =
     (let N = sampleCount_tsx sh vw;
          dy = height / real (verticalDivs sh);
          t = (real i / (real_of_int N - 1)) * totalTime sh vw + tOffset vw
      in case waveformSample_tsx (waveform ch) t (amplitude ch) (frequency ch) (phase ch)
                (dc ch) (difficulty sh) (noise ch) rnd s of
           None \<Rightarrow> None
         | Some (yV, s1) \<Rightarrow>
             (let xR = (real i / (real_of_int N - 1)) * width;
                  yR = height / 2 - ((yV - vOffset vw) / vPerDiv vw) * dy;
                  x = jsRound xR + 0.5;
                  y = jsRound yR + 0.5
              in Some ((x, y), s1)))"

definition channelTrace_tsx ::
  "shared \<Rightarrow> view \<Rightarrow> random \<Rightarrow> channel \<Rightarrow> nat \<Rightarrow> (point list \<times> nat) option" where
  "channelTrace_tsx sh vw rnd ch s =
     loopPoints (samplePoint_tsx sh vw ch rnd) (nat (sampleCount_tsx sh vw)) 0 s"

definition ScopeCanvas_tsx :: "shared \<Rightarrow> view \<Rightarrow> random \<Rightarrow> nat \<Rightarrow> (drawing \<times> nat) option" where
  "ScopeCanvas_tsx sh vw rnd s =
     (case drawChannels (channelTrace_tsx sh vw rnd) (channels sh) s of
        None \<Rightarrow> None
      | Some (trs, s1) \<Rightarrow>
          Some (\<lparr>gridLines = grid_tsx sh, axes = axes_tsx sh vw, traces = trs\<rparr>, s1))"

section \<open>Numbers of the checker\<close>

datatype jsnum = Fin real | PInf | NInf | NaN

fun isFinite :: "jsnum \<Rightarrow> bool" where
  "isFinite (Fin x) = True"
| "isFinite PInf = False"
| "isFinite NInf = False"
| "isFinite NaN = False"

text \<open>
  The arithmetic of the comparison, on all of \<open>jsnum\<close>. Zero carries no sign in this model;
  the only divisor of the program is \<open>Math.abs(c) + 1e-9\<close>, which is never zero.
\<close>

fun jsAbs :: "jsnum \<Rightarrow> jsnum" where
  "jsAbs (Fin x) = Fin \<bar>x\<bar>"
| "jsAbs PInf = PInf"
| "jsAbs NInf = PInf"
| "jsAbs NaN = NaN"

fun jsNeg :: "jsnum \<Rightarrow> jsnum" where
  "jsNeg (Fin x) = Fin (- x)"
| "jsNeg PInf = NInf"
| "jsNeg NInf = PInf"
| "jsNeg NaN = NaN"

fun jsAdd :: "jsnum \<Rightarrow> jsnum \<Rightarrow> jsnum" where
  "jsAdd (Fin x) (Fin y) = Fin (x + y)"
| "jsAdd NaN b = NaN"
| "jsAdd a NaN = NaN"
| "jsAdd PInf NInf = NaN"
| "jsAdd NInf PInf = NaN"
| "jsAdd PInf b = PInf"
| "jsAdd a PInf = PInf"
| "jsAdd NInf b = NInf"
| "jsAdd a NInf = NInf"

definition jsSub :: "jsnum \<Rightarrow> jsnum \<Rightarrow> jsnum" where
  "jsSub a b = jsAdd a (jsNeg b)"

fun jsDiv :: "jsnum \<Rightarrow> jsnum \<Rightarrow> jsnum" where
  "jsDiv (Fin x) (Fin y) =
     (if y = 0 then (if x = 0 then NaN else if 0 < x then PInf else NInf) else Fin (x / y))"
| "jsDiv NaN b = NaN"
| "jsDiv a NaN = NaN"
| "jsDiv (Fin x) b = Fin 0"
| "jsDiv PInf (Fin y) = (if 0 \<le> y then PInf else NInf)"
| "jsDiv NInf (Fin y) = (if 0 \<le> y then NInf else PInf)"
| "jsDiv a b = NaN"

fun jsLe :: "jsnum \<Rightarrow> jsnum \<Rightarrow> bool" where
  "jsLe (Fin x) (Fin y) = (x \<le> y)"
| "jsLe NaN b = False"
| "jsLe a NaN = False"
| "jsLe NInf b = True"
| "jsLe a PInf = True"
| "jsLe a b = False"

fun jsGt :: "jsnum \<Rightarrow> jsnum \<Rightarrow> bool" where
  "jsGt (Fin x) (Fin y) = (x > y)"
| "jsGt NaN b = False"
| "jsGt a NaN = False"
| "jsGt PInf PInf = False"
| "jsGt PInf b = True"
| "jsGt a NInf = (a \<noteq> NInf)"
| "jsGt a b = False"

subsection \<open>parseFloat\<close>

text \<open>
  The built-in \<open>parseFloat\<close> on the characters a text field can hold: leading white space
  is skipped, then the longest prefix that is a decimal literal (sign, digits, fraction,
  exponent) or a signed \<open>Infinity\<close> is read; without such a prefix the result is NaN. A
  literal beyond the range of the doubles reads as an infinity.
\<close>

definition isWhite :: "char \<Rightarrow> bool" where
  "isWhite c = (c \<in> set [CHR 0x09, CHR 0x0A, CHR 0x0B, CHR 0x0C, CHR 0x0D, CHR '' ''])"

definition isDigit :: "char \<Rightarrow> bool" where
  "isDigit c = (c \<in> set ''0123456789'')"

definition digitsVal :: "string \<Rightarrow> nat" where
  "digitsVal ds = foldl (\<lambda>n c. 10 * n + (of_char c - 48)) 0 ds"

definition signOf :: "string \<Rightarrow> bool \<times> string" where
  \<comment> \<open>An optional sign: whether it is a minus, and what follows it.\<close>
  "signOf s =
     (case s of
        [] \<Rightarrow> (False, s)
      | c # r \<Rightarrow> if c = CHR ''-'' then (True, r) else if c = CHR ''+'' then (False, r)
                 else (False, s))"

definition exponentPart :: "string \<Rightarrow> int" where
  \<comment> \<open>The exponent after the mantissa, 0 when none can be read.\<close>
  "exponentPart s =
     (case s of
        [] \<Rightarrow> 0
      | c # r \<Rightarrow>
          if c = CHR ''e'' \<or> c = CHR ''E'' then
            (let (neg, r1) = signOf r;
                 ds = takeWhile isDigit r1
             in if ds = [] then 0
                else if neg then - int (digitsVal ds) else int (digitsVal ds))
          else 0)"

definition toDouble :: "real \<Rightarrow> jsnum" where
  "toDouble v =
     (if \<bar>v\<bar> \<ge> 2 ^ 1024 - 2 ^ 970 then (if v < 0 then NInf else PInf) else Fin v)"

definition parseFloat :: "string \<Rightarrow> jsnum" where
  "parseFloat s =
     (let (neg, s1) = signOf (dropWhile isWhite s)
      in if take 8 s1 = ''Infinity'' then (if neg then NInf else PInf)
         else
           (let ip = takeWhile isDigit s1;
                r1 = dropWhile isDigit s1;
                (fp, r2) =
                  (case r1 of
                     [] \<Rightarrow> ([], r1)
                   | c # r \<Rightarrow>
                       if c = CHR ''.'' then (takeWhile isDigit r, dropWhile isDigit r)
                       else ([], r1))
            in if ip = [] \<and> fp = [] then NaN
               else
                 (let ex = exponentPart r2;
                      m = real (digitsVal (ip @ fp)) / 10 ^ length fp;
                      v = (if neg then - m else m)
                            * (if 0 \<le> ex then 10 ^ nat ex else 1 / 10 ^ nat (- ex))
                  in toDouble v)))"

definition parseFloatU :: "string option \<Rightarrow> jsnum" where
  \<comment> \<open>\<open>parseFloat(undefined)\<close> is NaN.\<close>
  "parseFloatU e = (case e of None \<Rightarrow> NaN | Some s \<Rightarrow> parseFloat s)"

section \<open>Measurement checker\<close>

type_synonym correct = "field \<Rightarrow> jsnum"

datatype error = TypeError

record 'a checkResult =
  ok :: bool
  perChannel :: "nat \<rightharpoonup> 'a"

definition tolV :: real where
  "tolV = 0.05"

definition tolF :: real where
  "tolF = 0.02"

definition checkFields :: "(field \<times> real) list" where
  \<comment> \<open>The list \<open>fields\<close> of the source.\<close>
  "checkFields = [(Vmax, tolV), (Vmin, tolV), (Vpp, tolV), (Period, tolF), (Freq, tolF)]"

definition relErr :: "jsnum \<Rightarrow> jsnum \<Rightarrow> jsnum" where
  \<comment> \<open>\<open>Math.abs(u - c) / (Math.abs(c) + 1e-9)\<close>\<close>
  "relErr u c = jsDiv (jsAbs (jsSub u c)) (jsAdd (jsAbs c) (Fin (1 / 10 ^ 9)))"

subsection \<open>JavaScript version\<close>

definition correctValues_jsx :: "channel \<Rightarrow> correct" where
  \<comment> \<open>The body of the loop of \<open>computeCorrect\<close>: the three branches of its switch.\<close>
  "correctValues_jsx ch =
     (if waveform ch = ''sine'' then
        (let vmax = dc ch + amplitude ch; vmin = dc ch - amplitude ch;
             vpp = 2 * amplitude ch; freq = frequency ch;
             period = (if freq > 0 then Fin (1 / freq) else PInf)
         in (\<lambda>k. case k of Vmax \<Rightarrow> Fin vmax | Vmin \<Rightarrow> Fin vmin | Vpp \<Rightarrow> Fin vpp
                   | Period \<Rightarrow> period | Freq \<Rightarrow> Fin freq))
      else if waveform ch = ''square'' then
        (let vmax = dc ch + amplitude ch; vmin = dc ch - amplitude ch;
             vpp = 2 * amplitude ch; freq = frequency ch;
             period = (if freq > 0 then Fin (1 / freq) else PInf)
         in (\<lambda>k. case k of Vmax \<Rightarrow> Fin vmax | Vmin \<Rightarrow> Fin vmin | Vpp \<Rightarrow> Fin vpp
                   | Period \<Rightarrow> period | Freq \<Rightarrow> Fin freq))
      else
        (let vmax = dc ch + amplitude ch; vmin = dc ch - amplitude ch;
             vpp = 2 * amplitude ch;
             freq = (if waveform ch = ''noise'' then 0 else frequency ch);
             period = (if freq > 0 then Fin (1 / freq) else PInf)
         in (\<lambda>k. case k of Vmax \<Rightarrow> Fin vmax | Vmin \<Rightarrow> Fin vmin | Vpp \<Rightarrow> Fin vpp
                   | Period \<Rightarrow> period | Freq \<Rightarrow> Fin freq)))"

fun computeLoop :: "channel list \<Rightarrow> (nat \<rightharpoonup> correct) \<Rightarrow> (nat \<rightharpoonup> correct)" where
  \<comment> \<open>\<open>for (const ch of shared.channels) { ...; map[ch.id] = { vmax, vmin, vpp, period, freq }; }\<close>\<close>
  "computeLoop [] m = m"
| "computeLoop (ch # chs) m = computeLoop chs (m(chId ch \<mapsto> correctValues_jsx ch))"

definition computeCorrect :: "shared \<Rightarrow> (nat \<rightharpoonup> correct)" where
  "computeCorrect sh = computeLoop (channels sh) Map.empty"

definition checkField_jsx :: "measure \<Rightarrow> correct \<Rightarrow> field \<Rightarrow> real \<Rightarrow> bool" where
  \<comment> \<open>One turn of the loop over the fields: the value stored in \<open>comp[k]\<close>.\<close>
  "checkField_jsx user corr k tol =
     (let u = parseFloatU (user k); c = corr k
      in if \<not> isFinite u \<or> \<not> isFinite c then False
         else (let rel = relErr u c in jsLe rel (Fin tol)))"

definition checkChannel_jsx :: "measure \<Rightarrow> correct \<Rightarrow> bool \<times> (field \<rightharpoonup> bool)" where
  "checkChannel_jsx user corr =
     foldl (\<lambda>(ok, comp) (k, tol).
              let pass = checkField_jsx user corr k tol
              in (if \<not> pass then False else ok, comp(k \<mapsto> pass)))
       (True, Map.empty) checkFields"

fun checkLoop_jsx ::
  "shared \<Rightarrow> view \<Rightarrow> channel list \<Rightarrow> (bool \<times> (field \<rightharpoonup> bool)) checkResult
     \<Rightarrow> error + (bool \<times> (field \<rightharpoonup> bool)) checkResult" where
  \<comment> \<open>Reading a field of a measure object or of a reference object that is not there
      throws.\<close>
  "checkLoop_jsx sh vw [] res = Inr res"
| "checkLoop_jsx sh vw (ch # chs) res =
     (if \<not> enabled ch then checkLoop_jsx sh vw chs res
      else
        (case measures vw (chId ch) of
           None \<Rightarrow> Inl TypeError
         | Some user \<Rightarrow>
             (case computeCorrect sh (chId ch) of
                None \<Rightarrow> Inl TypeError
              | Some corr \<Rightarrow>
                  (let r = checkChannel_jsx user corr
                   in checkLoop_jsx sh vw chs
                        \<lparr>ok = (if \<not> fst r then False else ok res),
                         perChannel = (perChannel res)(chId ch \<mapsto> r)\<rparr>))))"

definition doCheck_jsx ::
  "shared \<Rightarrow> view \<Rightarrow> error + (bool \<times> (field \<rightharpoonup> bool)) checkResult" where
  "doCheck_jsx sh vw = checkLoop_jsx sh vw (channels sh) \<lparr>ok = True, perChannel = Map.empty\<rparr>"

subsection \<open>Version with type annotations\<close>

record 'a scored = "'a checkResult" +
  punteggio :: int
  erroriCount :: nat
  datiMancanti :: nat

definition corr_tsx :: "channel \<Rightarrow> correct" where
  "corr_tsx ch =
     (\<lambda>k. case k of
        Vmax \<Rightarrow> Fin (amplitude ch + dc ch)
      | Vmin \<Rightarrow> Fin (- amplitude ch + dc ch)
      | Vpp \<Rightarrow> Fin (2 * amplitude ch)
      | Period \<Rightarrow> (if frequency ch > 0 then Fin (1 / frequency ch) else PInf)
      | Freq \<Rightarrow> Fin (frequency ch))"

definition addError :: "(nat \<rightharpoonup> bool \<times> nat) \<Rightarrow> nat \<Rightarrow> (nat \<rightharpoonup> bool \<times> nat)" where
  \<comment> \<open>\<open>(res.perChannel[id] = res.perChannel[id] || { ok: true, errors: 0 }).errors++\<close>\<close>
  "addError pc i = pc(i \<mapsto> (case pc i of None \<Rightarrow> (True, 1) | Some (b, e) \<Rightarrow> (b, Suc e)))"

definition fieldFails_tsx :: "measure \<Rightarrow> correct \<Rightarrow> field \<Rightarrow> real \<Rightarrow> bool" where
  \<comment> \<open>Whether one turn of the loop over the fields counts an error.\<close>
  "fieldFails_tsx user corr k tol =
     (let u = parseFloatU (user k); c = corr k
      in if \<not> isFinite u \<or> \<not> isFinite c then True
         else (let rel = relErr u c in jsGt rel (Fin tol)))"

definition checkChannel_tsx ::
  "measure \<Rightarrow> channel \<Rightarrow> (bool \<times> nat) checkResult \<Rightarrow> (bool \<times> nat) checkResult" where
  "checkChannel_tsx user ch res =
     foldl (\<lambda>r (k, tol).
              if fieldFails_tsx user (corr_tsx ch) k tol
              then \<lparr>ok = False, perChannel = addError (perChannel r) (chId ch)\<rparr>
              else r)
       res checkFields"

fun checkLoop_tsx ::
  "view \<Rightarrow> channel list \<Rightarrow> (bool \<times> nat) checkResult \<Rightarrow> (bool \<times> nat) checkResult" where
  \<comment> \<open>\<open>const user = (measures && measures[ch.id]) || {}\<close>: a channel without a measure
      object is checked against an empty one, whose fields all read as \<open>undefined\<close>.\<close>
  "checkLoop_tsx vw [] res = res"
| "checkLoop_tsx vw (ch # chs) res =
     (if \<not> enabled ch then checkLoop_tsx vw chs res
      else
        (let user = (case measures vw (chId ch) of None \<Rightarrow> Map.empty | Some m \<Rightarrow> m)
         in checkLoop_tsx vw chs (checkChannel_tsx user ch res)))"

definition doCheck_tsx :: "shared \<Rightarrow> view \<Rightarrow> (bool \<times> nat) scored" where
  \<comment> \<open>The entries of \<open>perChannel\<close> are those of the channel ids, so the sum over
      \<open>Object.values\<close> is the sum over the ids.\<close>
  "doCheck_tsx sh vw =
     (let missing = length (filter (\<lambda>s. s = []) [name vw, surname vw, className vw, date vw]);
          res = checkLoop_tsx vw (channels sh) \<lparr>ok = True, perChannel = Map.empty\<rparr>;
          totalErrors = sum_list (map (\<lambda>i. case perChannel res i of None \<Rightarrow> 0
                                           | Some (b, e) \<Rightarrow> e)
                                   (remdups (map chId (channels sh))));
          pc = (\<lambda>i. map_option (\<lambda>(b, e). (e = 0, e)) (perChannel res i));
          p0 = 10 - min 5 \<lceil>real totalErrors / 2\<rceil>;
          p1 = (if missing \<noteq> 0 then max 0 (p0 - 1) else p0)
      in \<lparr>ok = ok res, perChannel = pc, punteggio = p1, erroriCount = totalErrors,
          datiMancanti = missing\<rparr>)"

section \<open>Initial states\<close>

definition defaultChannels :: "channel list" where
  "defaultChannels =
     [\<lparr>chId = 1, enabled = True, waveform = ''sine'', amplitude = 2, frequency = 1000,
       phase = 0, dc = 0, color = ''#22c55e'', noise = Some 0\<rparr>,
      \<lparr>chId = 2, enabled = False, waveform = ''square'', amplitude = 1, frequency = 500,
       phase = 0, dc = 0, color = ''#3b82f6'', noise = Some 0\<rparr>,
      \<lparr>chId = 3, enabled = False, waveform = ''triangle'', amplitude = 1.5, frequency = 200,
       phase = 0, dc = 0, color = ''#ef4444'', noise = Some 0\<rparr>]"

definition defaultSharedState_jsx :: shared where
  "defaultSharedState_jsx =
     \<lparr>locked = False, difficulty = ''base'', showCorrect = False, timeBase = 0.001,
      sampleRate = 20000, durationDivs = 10, verticalDivs = 8, channels = defaultChannels\<rparr>"

definition defaultSharedState_tsx :: shared where
  \<comment> \<open>This version has no \<open>showCorrect\<close>: the button of the check is always shown.\<close>
  "defaultSharedState_tsx =
     \<lparr>locked = False, difficulty = ''base'', showCorrect = True, timeBase = 0.001,
      sampleRate = 20000, durationDivs = 10, verticalDivs = 10, channels = defaultChannels\<rparr>"

definition emptyMeasure :: measure where
  "emptyMeasure = [Vmax \<mapsto> [], Vmin \<mapsto> [], Vpp \<mapsto> [], Period \<mapsto> [], Freq \<mapsto> []]"

definition defaultView :: view where
  "defaultView =
     \<lparr>vPerDiv = 1, sPerDiv = 0.001, vOffset = 0, tOffset = 0, name = [], surname = [],
      className = [], date = [],
      measures = [1 \<mapsto> emptyMeasure, 2 \<mapsto> emptyMeasure, 3 \<mapsto> emptyMeasure]\<rparr>"

text \<open>
  The channel of the round trip of the checker, alone in a shared state, and a view in
  which the student has typed its five reference values.
\<close>

definition roundTripChannel :: channel where
  "roundTripChannel =
     \<lparr>chId = 1, enabled = True, waveform = ''sine'', amplitude = 2, frequency = 1000,
      phase = 0, dc = 1, color = ''#22c55e'', noise = Some 0\<rparr>"

definition roundTripShared :: shared where
  "roundTripShared = defaultSharedState_jsx\<lparr>channels := [roundTripChannel]\<rparr>"

definition roundTripMeasure :: measure where
  "roundTripMeasure =
     [Vmax \<mapsto> ''3'', Vmin \<mapsto> ''-1'', Vpp \<mapsto> ''4'', Period \<mapsto> ''0.001'', Freq \<mapsto> ''1000'']"

definition roundTripView :: view where
  "roundTripView = defaultView\<lparr>measures := [1 \<mapsto> roundTripMeasure]\<rparr>"

text \<open>
  Channels and entries at which the comparison of a field is evaluated below: a channel
  of frequency 0, a channel of amplitude 0 and dc 0, and a noise channel of frequency 1000.
\<close>

definition zeroFrequencyChannel :: channel where
  "zeroFrequencyChannel = roundTripChannel\<lparr>frequency := 0\<rparr>"

definition flatChannel :: channel where
  "flatChannel = roundTripChannel\<lparr>amplitude := 0, dc := 0\<rparr>"

definition noiseChannel :: channel where
  "noiseChannel = roundTripChannel\<lparr>waveform := ''noise'', amplitude := 1, dc := 0\<rparr>"

definition fieldFails_claimed :: "jsnum \<Rightarrow> jsnum \<Rightarrow> real \<Rightarrow> bool" where
  \<comment> \<open>The failure of a field in the words of the specification: the entry is not a
      finite number, or the relative error exceeds the tolerance.\<close>
  "fieldFails_claimed u c tol = (\<not> isFinite u \<or> jsGt (relErr u c) (Fin tol))"

text \<open>
  The waveform kinds that the generator names, and two sequences of draws of
  \<open>Math.random()\<close>: one that gives 1/4 and then 3/4 for ever, one that always gives 1/2.
\<close>

definition waveformKinds :: "string list" where
  "waveformKinds =
     [''sine'', ''square'', ''triangle'', ''saw'', ''rectified'', ''am'', ''fm'', ''noise'',
      ''sum2'']"

definition twoDraws :: random where
  "twoDraws n = (if n = 0 then 1 / 4 else 3 / 4)"

definition halfDraws :: random where
  "halfDraws n = 1 / 2"

text \<open>
  A shared state with three horizontal divisions, for which the grid lines do not fall on
  whole pixels.
\<close>

definition threeDivisions :: shared where
  "threeDivisions = defaultSharedState_tsx\<lparr>durationDivs := 3\<rparr>"

text \<open>
  The mapping of sample \<open>i\<close> of \<open>N\<close> in the words of the specification: its time, its
  pixel column and the pixel row of a voltage.
\<close>

definition sampleTime :: "shared \<Rightarrow> view \<Rightarrow> int \<Rightarrow> nat \<Rightarrow> real" where
  "sampleTime sh vw N i =
     (real i / (real_of_int N - 1)) * (sPerDiv vw * real (durationDivs sh)) + tOffset vw"

definition pixelX :: "int \<Rightarrow> nat \<Rightarrow> real" where
  "pixelX N i = (real i / (real_of_int N - 1)) * width"

definition pixelY :: "shared \<Rightarrow> view \<Rightarrow> real \<Rightarrow> real" where
  "pixelY sh vw v =
     height / 2 - ((v - vOffset vw) / vPerDiv vw) * (height / real (verticalDivs sh))"

section \<open>Properties of the checker's loops\<close>

lemmas parseFloat_defs = parseFloat_def parseFloatU_def signOf_def isWhite_def isDigit_def
  digitsVal_def exponentPart_def toDouble_def

lemma relErr_Fin: "relErr (Fin a) (Fin b) = Fin (\<bar>a - b\<bar> / (\<bar>b\<bar> + 1 / 10 ^ 9))"
proof -
  have "\<bar>b\<bar> + 1 / 10 ^ 9 \<noteq> 0" by (smt (verit) divide_pos_pos zero_less_power)
  then show ?thesis by (simp add: relErr_def jsSub_def)
qed

lemma checkField_jsx_Fin:
  "parseFloatU (user k) = Fin a \<Longrightarrow> corr k = Fin b \<Longrightarrow>
   checkField_jsx user corr k tol = (\<bar>a - b\<bar> / (\<bar>b\<bar> + 1 / 10 ^ 9) \<le> tol)"
  by (simp add: checkField_jsx_def relErr_Fin)

lemma fieldFails_tsx_Fin:
  "parseFloatU (user k) = Fin a \<Longrightarrow> corr k = Fin b \<Longrightarrow>
   fieldFails_tsx user corr k tol = (\<bar>a - b\<bar> / (\<bar>b\<bar> + 1 / 10 ^ 9) > tol)"
  by (simp add: fieldFails_tsx_def relErr_Fin)

lemma checkField_exact:
  "parseFloatU (user k) = corr k \<Longrightarrow> isFinite (corr k) \<Longrightarrow> 0 \<le> tol \<Longrightarrow>
   checkField_jsx user corr k tol \<and> \<not> fieldFails_tsx user corr k tol"
  by (cases "corr k") (simp_all add: checkField_jsx_Fin fieldFails_tsx_Fin)

lemma computeLoop_other:
  "i \<notin> chId ` set chs \<Longrightarrow> computeLoop chs m i = m i"
  by (induction chs arbitrary: m) auto

lemma computeLoop_distinct:
  "distinct (map chId chs) \<Longrightarrow> ch \<in> set chs \<Longrightarrow>
   computeLoop chs m (chId ch) = Some (correctValues_jsx ch)"
proof (induction chs arbitrary: m)
  case Nil
  then show ?case by simp
next
  case (Cons c cs)
  show ?case
  proof (cases "ch = c")
    case True
    with Cons.prems have "chId c \<notin> chId ` set cs" by auto
    with True show ?thesis by (simp add: computeLoop_other)
  next
    case False
    with Cons show ?thesis by auto
  qed
qed

lemma computeLoop_defined:
  "i \<in> chId ` set chs \<or> m i \<noteq> None \<Longrightarrow> computeLoop chs m i \<noteq> None"
proof (induction chs arbitrary: m)
  case Nil
  then show ?case by simp
next
  case (Cons c cs)
  have "i \<in> chId ` set cs \<or> (m(chId c \<mapsto> correctValues_jsx c)) i \<noteq> None"
    using Cons.prems by auto
  then have "computeLoop cs (m(chId c \<mapsto> correctValues_jsx c)) i \<noteq> None"
    by (rule Cons.IH)
  then show ?case by simp
qed

lemma computeCorrect_distinct:
  "distinct (map chId (channels sh)) \<Longrightarrow> ch \<in> set (channels sh) \<Longrightarrow>
   computeCorrect sh (chId ch) = Some (correctValues_jsx ch)"
  unfolding computeCorrect_def by (rule computeLoop_distinct)

lemma computeCorrect_defined:
  "ch \<in> set (channels sh) \<Longrightarrow> computeCorrect sh (chId ch) \<noteq> None"
  unfolding computeCorrect_def by (rule computeLoop_defined) simp

lemma checkLoop_jsx_other:
  "checkLoop_jsx sh vw chs res = Inr res' \<Longrightarrow> i \<notin> chId ` set chs \<Longrightarrow>
   perChannel res' i = perChannel res i"
proof (induction chs arbitrary: res)
  case Nil
  then show ?case by simp
next
  case (Cons c cs)
  then show ?case
    by (auto simp: Let_def split: if_splits option.splits)
qed

lemma checkLoop_jsx_returns:
  "(\<And>c. c \<in> set chs \<Longrightarrow> enabled c \<Longrightarrow> measures vw (chId c) \<noteq> None) \<Longrightarrow>
   (\<And>c. c \<in> set chs \<Longrightarrow> computeCorrect sh (chId c) \<noteq> None) \<Longrightarrow>
   \<exists>res'. checkLoop_jsx sh vw chs res = Inr res'"
proof (induction chs arbitrary: res)
  case Nil
  then show ?case by simp
next
  case (Cons c cs)
  show ?case
  proof (cases "enabled c")
    case False
    with Cons show ?thesis by simp
  next
    case True
    from Cons.prems(1)[of c] True obtain user where u: "measures vw (chId c) = Some user" by auto
    from Cons.prems(2)[of c] obtain corr where c: "computeCorrect sh (chId c) = Some corr" by auto
    show ?thesis using True u c Cons.IH Cons.prems by (simp add: Let_def)
  qed
qed

lemma checkLoop_jsx_entry:
  "checkLoop_jsx sh vw chs res = Inr res' \<Longrightarrow> distinct (map chId chs) \<Longrightarrow>
   ch \<in> set chs \<Longrightarrow> enabled ch \<Longrightarrow> measures vw (chId ch) = Some user \<Longrightarrow>
   computeCorrect sh (chId ch) = Some corr \<Longrightarrow>
   perChannel res' (chId ch) = Some (checkChannel_jsx user corr)"
proof (induction chs arbitrary: res)
  case Nil
  then show ?case by simp
next
  case (Cons c cs)
  show ?case
  proof (cases "ch = c")
    case True
    with Cons.prems have notin: "chId c \<notin> chId ` set cs" by auto
    from Cons.prems True have
      "checkLoop_jsx sh vw cs \<lparr>ok = (if \<not> fst (checkChannel_jsx user corr) then False else ok res),
          perChannel = (perChannel res)(chId c \<mapsto> checkChannel_jsx user corr)\<rparr> = Inr res'"
      by (simp add: Let_def)
    from checkLoop_jsx_other[OF this notin] True show ?thesis by simp
  next
    case False
    with Cons.prems have "ch \<in> set cs" "distinct (map chId cs)" by auto
    moreover from Cons.prems(1) obtain r where "checkLoop_jsx sh vw cs r = Inr res'"
      by (auto simp: Let_def split: if_splits option.splits)
    ultimately show ?thesis using Cons.IH Cons.prems by blast
  qed
qed

lemma checkChannel_jsx_all:
  "(\<And>k tol. (k, tol) \<in> set checkFields \<Longrightarrow> checkField_jsx user corr k tol) \<Longrightarrow>
   checkChannel_jsx user corr = (True, (\<lambda>k. Some True))"
proof -
  assume a: "\<And>k tol. (k, tol) \<in> set checkFields \<Longrightarrow> checkField_jsx user corr k tol"
  have "(\<lambda>k. Some True) = [Vmax \<mapsto> True, Vmin \<mapsto> True, Vpp \<mapsto> True, Period \<mapsto> True, Freq \<mapsto> True]"
  proof
    fix k show "Some True = [Vmax \<mapsto> True, Vmin \<mapsto> True, Vpp \<mapsto> True, Period \<mapsto> True, Freq \<mapsto> True] k"
      by (cases k) simp_all
  qed
  moreover have "checkField_jsx user corr Vmax tolV" "checkField_jsx user corr Vmin tolV"
    "checkField_jsx user corr Vpp tolV" "checkField_jsx user corr Period tolF"
    "checkField_jsx user corr Freq tolF"
    using a by (simp_all add: checkFields_def)
  ultimately show ?thesis
    by (simp add: checkChannel_jsx_def checkFields_def)
qed

lemma checkChannel_tsx_none:
  "(\<And>k tol. (k, tol) \<in> set checkFields \<Longrightarrow> \<not> fieldFails_tsx user (corr_tsx ch) k tol) \<Longrightarrow>
   checkChannel_tsx user ch res = res"
  by (simp add: checkChannel_tsx_def checkFields_def)

lemma addError_other: "i \<noteq> j \<Longrightarrow> addError pc j i = pc i"
  by (simp add: addError_def)

lemma checkChannel_tsx_other:
  "i \<noteq> chId ch \<Longrightarrow> perChannel (checkChannel_tsx user ch res) i = perChannel res i"
  by (simp add: checkChannel_tsx_def checkFields_def addError_other)

lemma checkLoop_tsx_other:
  "i \<notin> chId ` set (filter enabled chs) \<Longrightarrow> perChannel (checkLoop_tsx vw chs res) i = perChannel res i"
  by (induction chs arbitrary: res) (auto simp: Let_def checkChannel_tsx_other)

lemma checkLoop_tsx_clean:
  "distinct (map chId chs) \<Longrightarrow> ch \<in> set chs \<Longrightarrow> enabled ch \<Longrightarrow>
   measures vw (chId ch) = Some user \<Longrightarrow>
   (\<And>k tol. (k, tol) \<in> set checkFields \<Longrightarrow> \<not> fieldFails_tsx user (corr_tsx ch) k tol) \<Longrightarrow>
   perChannel (checkLoop_tsx vw chs res) (chId ch) = perChannel res (chId ch)"
proof (induction chs arbitrary: res)
  case Nil
  then show ?case by simp
next
  case (Cons c cs)
  show ?case
  proof (cases "ch = c")
    case True
    with Cons.prems have "chId c \<notin> chId ` set (filter enabled cs)" by auto
    with True Cons.prems show ?thesis
      by (simp add: checkLoop_tsx_other checkChannel_tsx_none)
  next
    case False
    with Cons.prems have "ch \<in> set cs" "chId c \<notin> chId ` set cs" by auto
    then have "chId ch \<noteq> chId c" by (metis imageI)
    with False Cons show ?thesis
      by (auto simp: Let_def checkChannel_tsx_other)
  qed
qed

section \<open>Checker: round trip\<close>

text \<open>
  Claim C3. For an enabled channel with waveform \<open>sine\<close>, amplitude 2, dc 1 and
  frequency 1000, the reference values of the checker are vmax = 3, vmin = -1, vpp = 4,
  freq = 1000 and period = 0.001, in \<open>computeCorrect\<close> of the JavaScript version and in
  the inline reference object of the other one. When the student's five entries parse to
  exactly these numbers the channel passes: the JavaScript \<open>doCheck\<close> returns and records
  \<open>ok = true\<close> with every field passing, and the other \<open>doCheck\<close> counts no error for
  the channel, so that it has no entry among the failing channels. The ids of the channels
  are distinct, and every enabled channel has a measure object (without one the JavaScript
  version throws).
\<close>

theorem checker_round_trip:
  assumes ch: "ch \<in> set (channels sh)" "distinct (map chId (channels sh))" "enabled ch"
    and sine: "waveform ch = ''sine''" "amplitude ch = 2" "dc ch = 1" "frequency ch = 1000"
    and user: "measures vw (chId ch) = Some user"
    and entries: "parseFloatU (user Vmax) = Fin 3" "parseFloatU (user Vmin) = Fin (- 1)"
      "parseFloatU (user Vpp) = Fin 4" "parseFloatU (user Period) = Fin 0.001"
      "parseFloatU (user Freq) = Fin 1000"
    and others: "\<forall>c \<in> set (channels sh). enabled c \<longrightarrow> measures vw (chId c) \<noteq> None"
  shows "(\<exists>corr. computeCorrect sh (chId ch) = Some corr
            \<and> corr Vmax = Fin 3 \<and> corr Vmin = Fin (- 1) \<and> corr Vpp = Fin 4
            \<and> corr Freq = Fin 1000 \<and> corr Period = Fin 0.001)
       \<and> corr_tsx ch Vmax = Fin 3 \<and> corr_tsx ch Vmin = Fin (- 1) \<and> corr_tsx ch Vpp = Fin 4
       \<and> corr_tsx ch Freq = Fin 1000 \<and> corr_tsx ch Period = Fin 0.001
       \<and> (\<exists>res. doCheck_jsx sh vw = Inr res
              \<and> perChannel res (chId ch) = Some (True, \<lambda>k. Some True))
       \<and> perChannel (doCheck_tsx sh vw) (chId ch) = None"
proof -
  have cc: "computeCorrect sh (chId ch) = Some (correctValues_jsx ch)"
    using ch by (simp add: computeCorrect_distinct)
  have js: "correctValues_jsx ch Vmax = Fin 3" "correctValues_jsx ch Vmin = Fin (- 1)"
    "correctValues_jsx ch Vpp = Fin 4" "correctValues_jsx ch Freq = Fin 1000"
    "correctValues_jsx ch Period = Fin 0.001"
    using sine by (simp_all add: correctValues_jsx_def)
  have ts: "corr_tsx ch Vmax = Fin 3" "corr_tsx ch Vmin = Fin (- 1)"
    "corr_tsx ch Vpp = Fin 4" "corr_tsx ch Freq = Fin 1000"
    "corr_tsx ch Period = Fin 0.001"
    using sine by (simp_all add: corr_tsx_def)
  have tol: "0 \<le> tol" if "(k, tol) \<in> set checkFields" for k tol
    using that by (auto simp: checkFields_def tolV_def tolF_def)
  have eqj: "parseFloatU (user k) = correctValues_jsx ch k" for k
    using entries js by (cases k) simp_all
  have eqt: "parseFloatU (user k) = corr_tsx ch k" for k
    using entries ts by (cases k) simp_all
  have finj: "isFinite (correctValues_jsx ch k)" for k
    using js by (cases k) simp_all
  have fint: "isFinite (corr_tsx ch k)" for k
    using ts by (cases k) simp_all
  have passj: "checkField_jsx user (correctValues_jsx ch) k tol"
    if "(k, tol) \<in> set checkFields" for k tol
    using checkField_exact[of user k "correctValues_jsx ch" tol] eqj[of k] finj[of k]
      tol[OF that] by simp
  have passt: "\<not> fieldFails_tsx user (corr_tsx ch) k tol"
    if "(k, tol) \<in> set checkFields" for k tol
    using checkField_exact[of user k "corr_tsx ch" tol] eqt[of k] fint[of k]
      tol[OF that] by simp
  have chan: "checkChannel_jsx user (correctValues_jsx ch) = (True, \<lambda>k. Some True)"
    using passj by (rule checkChannel_jsx_all)
  obtain res where res: "doCheck_jsx sh vw = Inr res"
    unfolding doCheck_jsx_def
    using checkLoop_jsx_returns[where chs="channels sh" and vw=vw and sh=sh] others computeCorrect_defined
    by blast
  have "perChannel res (chId ch) = Some (True, \<lambda>k. Some True)"
    using checkLoop_jsx_entry[OF res[unfolded doCheck_jsx_def] ch(2) ch(1) ch(3) user cc] chan
    by simp
  moreover have "perChannel (doCheck_tsx sh vw) (chId ch) = None"
    using checkLoop_tsx_clean[OF ch(2) ch(1) ch(3) user passt, where res="\<lparr>ok = True, perChannel = Map.empty\<rparr>"]
    by (simp add: doCheck_tsx_def Let_def)
  ultimately show ?thesis using cc js ts res by simp
qed

theorem checker_round_trip_witness:
  "(\<exists>res. doCheck_jsx roundTripShared roundTripView = Inr res
       \<and> perChannel res 1 = Some (True, \<lambda>k. Some True))
   \<and> perChannel (doCheck_tsx roundTripShared roundTripView) 1 = None"
  using checker_round_trip [of roundTripChannel roundTripShared roundTripView roundTripMeasure]
  by (simp add: roundTripChannel_def roundTripShared_def roundTripView_def roundTripMeasure_def
      defaultSharedState_jsx_def defaultView_def parseFloat_defs)

section \<open>Checker: comparison of a field\<close>

lemma relErr_PInf: "relErr (Fin a) PInf = NaN"
  by (simp add: relErr_def jsSub_def)

lemma field_fails_code:
  "(\<not> checkField_jsx user corr k tol)
     = (\<not> isFinite (parseFloatU (user k)) \<or> \<not> isFinite (corr k)
        \<or> jsGt (relErr (parseFloatU (user k)) (corr k)) (Fin tol))"
  "fieldFails_tsx user corr k tol = (\<not> checkField_jsx user corr k tol)"
  by (cases "parseFloatU (user k)"; cases "corr k";
      simp add: checkField_jsx_def fieldFails_tsx_def relErr_Fin not_le)+

lemma within_049:
  fixes r :: real
  shows "\<bar>r * 1.049 - r\<bar> / (\<bar>r\<bar> + 1 / 10 ^ 9) \<le> 0.05"
proof -
  have "\<bar>r * 1.049 - r\<bar> = 0.049 * \<bar>r\<bar>"
    by (simp add: abs_if)
  moreover have "0.049 * \<bar>r\<bar> \<le> 0.05 * (\<bar>r\<bar> + 1 / 10 ^ 9)" by simp
  moreover have "0 < \<bar>r\<bar> + 1 / 10 ^ 9" by (smt (verit) divide_pos_pos zero_less_power)
  ultimately show ?thesis by (simp add: pos_divide_le_eq)
qed

lemma beyond_051:
  fixes r :: real
  shows "(\<bar>r * 1.051 - r\<bar> / (\<bar>r\<bar> + 1 / 10 ^ 9) > 0.05) = (\<bar>r\<bar> > 5 / 10 ^ 8)"
proof -
  have "\<bar>r * 1.051 - r\<bar> = 0.051 * \<bar>r\<bar>"
    by (simp add: abs_if)
  moreover have "0 < \<bar>r\<bar> + 1 / 10 ^ 9" by (smt (verit) divide_pos_pos zero_less_power)
  ultimately show ?thesis by (simp add: pos_less_divide_eq mult.commute)
qed

text \<open>
  Claim C6, as amended. In both versions a field fails if and only if the student's entry
  does not parse to a finite number, or the reference value is not finite, or the relative
  error \<open>|user - ref| / (|ref| + 1e-9)\<close> exceeds the tolerance, which is 5% for vmax,
  vmin and vpp and 2% for period and freq. A vmax entered as \<open>ref * 1.049\<close> passes; one
  entered as \<open>ref * 1.051\<close> fails when \<open>|ref| > 5e-8\<close>.

  The claim as stated leaves out the test of the reference value and the bound on
  \<open>ref\<close>. The counterexample below, after the witness, shows both: with the infinite
  reference period of a channel of frequency 0 the entry \<open>5\<close> fails in the code, though it
  is a finite number and the relative error, which is NaN, exceeds nothing; and with the
  reference 0 the entry \<open>0\<close>, which is \<open>0 * 1.051\<close>, passes.
\<close>

theorem field_comparison:
  "((\<not> checkField_jsx user corr k tol)
      = (\<not> isFinite (parseFloatU (user k)) \<or> \<not> isFinite (corr k)
         \<or> jsGt (relErr (parseFloatU (user k)) (corr k)) (Fin tol)))
   \<and> (fieldFails_tsx user corr k tol
      = (\<not> isFinite (parseFloatU (user k)) \<or> \<not> isFinite (corr k)
         \<or> jsGt (relErr (parseFloatU (user k)) (corr k)) (Fin tol)))
   \<and> checkFields = [(Vmax, 0.05), (Vmin, 0.05), (Vpp, 0.05), (Period, 0.02), (Freq, 0.02)]
   \<and> (corr Vmax = Fin r \<and> parseFloatU (user Vmax) = Fin (r * 1.049)
        \<longrightarrow> checkField_jsx user corr Vmax tolV \<and> \<not> fieldFails_tsx user corr Vmax tolV)
   \<and> (corr Vmax = Fin r \<and> parseFloatU (user Vmax) = Fin (r * 1.051) \<and> \<bar>r\<bar> > 5 / 10 ^ 8
        \<longrightarrow> \<not> checkField_jsx user corr Vmax tolV \<and> fieldFails_tsx user corr Vmax tolV)"
proof -
  have a: "corr Vmax = Fin r \<and> parseFloatU (user Vmax) = Fin (r * 1.049)
        \<longrightarrow> checkField_jsx user corr Vmax tolV \<and> \<not> fieldFails_tsx user corr Vmax tolV"
  proof
    assume h: "corr Vmax = Fin r \<and> parseFloatU (user Vmax) = Fin (r * 1.049)"
    then have "checkField_jsx user corr Vmax tolV
        = (\<bar>r * 1.049 - r\<bar> / (\<bar>r\<bar> + 1 / 10 ^ 9) \<le> 0.05)"
      unfolding tolV_def by (intro checkField_jsx_Fin) blast+
    then show "checkField_jsx user corr Vmax tolV \<and> \<not> fieldFails_tsx user corr Vmax tolV"
      using within_049[of r] field_fails_code(2)[of user corr Vmax tolV] by blast
  qed
  have b: "corr Vmax = Fin r \<and> parseFloatU (user Vmax) = Fin (r * 1.051) \<and> \<bar>r\<bar> > 5 / 10 ^ 8
        \<longrightarrow> \<not> checkField_jsx user corr Vmax tolV \<and> fieldFails_tsx user corr Vmax tolV"
  proof
    assume h: "corr Vmax = Fin r \<and> parseFloatU (user Vmax) = Fin (r * 1.051) \<and> \<bar>r\<bar> > 5 / 10 ^ 8"
    then have "fieldFails_tsx user corr Vmax tolV
        = (\<bar>r * 1.051 - r\<bar> / (\<bar>r\<bar> + 1 / 10 ^ 9) > 0.05)"
      unfolding tolV_def by (intro fieldFails_tsx_Fin) blast+
    then show "\<not> checkField_jsx user corr Vmax tolV \<and> fieldFails_tsx user corr Vmax tolV"
      using beyond_051[of r] h field_fails_code(2)[of user corr Vmax tolV] by blast
  qed
  have c: "checkFields = [(Vmax, 0.05), (Vmin, 0.05), (Vpp, 0.05), (Period, 0.02), (Freq, 0.02)]"
    by (simp add: checkFields_def tolV_def tolF_def)
  show ?thesis using field_fails_code[of user corr k tol] a b c by blast
qed

lemmas channel_defs = roundTripChannel_def zeroFrequencyChannel_def flatChannel_def noiseChannel_def

theorem field_comparison_witness:
  "checkField_jsx [Vmax \<mapsto> ''3.147''] (correctValues_jsx roundTripChannel) Vmax tolV
   \<and> \<not> fieldFails_tsx [Vmax \<mapsto> ''3.147''] (correctValues_jsx roundTripChannel) Vmax tolV
   \<and> \<not> checkField_jsx [Vmax \<mapsto> ''3.153''] (correctValues_jsx roundTripChannel) Vmax tolV
   \<and> fieldFails_tsx [Vmax \<mapsto> ''3.153''] (correctValues_jsx roundTripChannel) Vmax tolV"
proof -
  have c: "correctValues_jsx roundTripChannel Vmax = Fin 3"
    by (simp add: channel_defs correctValues_jsx_def)
  have p1: "parseFloatU ([Vmax \<mapsto> ''3.147''] Vmax) = Fin (3 * 1.049)"
    by (simp add: parseFloat_defs)
  have p2: "parseFloatU ([Vmax \<mapsto> ''3.153''] Vmax) = Fin (3 * 1.051)"
    by (simp add: parseFloat_defs)
  have big: "\<bar>3 :: real\<bar> > 5 / 10 ^ 8"
    by simp
  show ?thesis
    using field_comparison [of "[Vmax \<mapsto> ''3.147'']" "correctValues_jsx roundTripChannel" Vmax tolV 3]
      field_comparison [of "[Vmax \<mapsto> ''3.153'']" "correctValues_jsx roundTripChannel" Vmax tolV 3]
      c p1 p2 big
    by blast
qed

theorem field_comparison_counterexample:
  "\<not> checkField_jsx [Period \<mapsto> ''5''] (correctValues_jsx zeroFrequencyChannel) Period tolF
   \<and> fieldFails_tsx [Period \<mapsto> ''5''] (corr_tsx zeroFrequencyChannel) Period tolF
   \<and> \<not> fieldFails_claimed (parseFloat ''5'') (correctValues_jsx zeroFrequencyChannel Period) tolF
   \<and> \<not> fieldFails_claimed (parseFloat ''5'') (corr_tsx zeroFrequencyChannel Period) tolF
   \<and> correctValues_jsx flatChannel Vmax = Fin 0
   \<and> corr_tsx flatChannel Vmax = Fin 0
   \<and> parseFloat ''0'' = Fin (0 * 1.051)
   \<and> checkField_jsx [Vmax \<mapsto> ''0''] (correctValues_jsx flatChannel) Vmax tolV
   \<and> \<not> fieldFails_tsx [Vmax \<mapsto> ''0''] (corr_tsx flatChannel) Vmax tolV"
  by (simp add: channel_defs correctValues_jsx_def corr_tsx_def parseFloat_defs
      checkField_jsx_def fieldFails_tsx_def fieldFails_claimed_def relErr_PInf relErr_Fin
      tolV_def tolF_def)

section \<open>Checker: the period of a channel of frequency 0\<close>

lemma period_reference:
  "correctValues_jsx ch Period
     = (if waveform ch \<noteq> ''noise'' \<and> frequency ch > 0 then Fin (1 / frequency ch) else PInf)"
  "corr_tsx ch Period = (if frequency ch > 0 then Fin (1 / frequency ch) else PInf)"
  by (simp_all add: correctValues_jsx_def corr_tsx_def Let_def)

lemma infinite_reference_fails:
  "corr k = PInf \<Longrightarrow> \<not> checkField_jsx user corr k tol \<and> fieldFails_tsx user corr k tol"
  by (simp add: checkField_jsx_def fieldFails_tsx_def)

text \<open>
  Claim C8. For a channel of frequency 0 the reference period is the sentinel, positive
  infinity, in both versions, and the period field is a non-match unless the student
  reports an infinite or undefined value: whenever the entry parses to a finite number
  the field fails. (What the code does with the entries the claim leaves open is
  \<open>infinite_entry_fails\<close> below: they fail as well, since neither they nor the reference
  are finite.)
\<close>

theorem zero_frequency_period:
  assumes "frequency ch = 0"
  shows "correctValues_jsx ch Period = PInf \<and> corr_tsx ch Period = PInf
       \<and> (isFinite (parseFloatU (user Period))
            \<longrightarrow> \<not> checkField_jsx user (correctValues_jsx ch) Period tolF
              \<and> fieldFails_tsx user (corr_tsx ch) Period tolF)"
  using assms by (simp add: period_reference infinite_reference_fails)

theorem zero_frequency_period_witness:
  "frequency zeroFrequencyChannel = 0
   \<and> correctValues_jsx zeroFrequencyChannel Period = PInf
   \<and> corr_tsx zeroFrequencyChannel Period = PInf
   \<and> isFinite (parseFloatU ([Period \<mapsto> ''0.001''] Period))
   \<and> \<not> checkField_jsx [Period \<mapsto> ''0.001''] (correctValues_jsx zeroFrequencyChannel) Period tolF
   \<and> fieldFails_tsx [Period \<mapsto> ''0.001''] (corr_tsx zeroFrequencyChannel) Period tolF"
proof -
  have f: "frequency zeroFrequencyChannel = 0"
    by (simp add: channel_defs)
  have e: "isFinite (parseFloatU ([Period \<mapsto> ''0.001''] Period))"
    by (simp add: parseFloat_defs)
  show ?thesis
    using zero_frequency_period [OF f, of "[Period \<mapsto> ''0.001'']"] f e by blast
qed

lemma infinite_entry_fails:
  "frequency ch = 0 \<Longrightarrow> \<not> isFinite (parseFloatU (user Period)) \<Longrightarrow>
   \<not> checkField_jsx user (correctValues_jsx ch) Period tolF
   \<and> fieldFails_tsx user (corr_tsx ch) Period tolF"
  by (simp add: period_reference infinite_reference_fails)

lemma infinite_entry_example:
  "parseFloatU ([Period \<mapsto> ''Infinity''] Period) = PInf
   \<and> \<not> checkField_jsx [Period \<mapsto> ''Infinity''] (correctValues_jsx zeroFrequencyChannel) Period tolF
   \<and> fieldFails_tsx [Period \<mapsto> ''Infinity''] (corr_tsx zeroFrequencyChannel) Period tolF"
  by (simp add: parseFloat_defs channel_defs period_reference infinite_reference_fails)

section \<open>Checker: the reference frequency of noise\<close>

lemma noise_reference_jsx:
  "waveform ch = ''noise'' \<Longrightarrow>
   correctValues_jsx ch Freq = Fin 0 \<and> correctValues_jsx ch Period = PInf"
  by (simp add: correctValues_jsx_def)

lemma reference_frequency_tsx: "corr_tsx ch Freq = Fin (frequency ch)"
  by (simp add: corr_tsx_def)

text \<open>
  Claim C7: the reference frequency of a channel whose waveform is noise is 0, and its
  reference period the infinite sentinel, whatever its frequency field holds.
  \<open>computeCorrect\<close> of the JavaScript version does this (\<open>noise_reference_jsx\<close>). The
  reference object that the other version builds inside \<open>doCheck\<close> has no case for noise
  (\<open>reference_frequency_tsx\<close>): evaluated on a noise channel whose frequency field is 1000
  it gives the frequency 1000 and the period 0.001, where the JavaScript version gives 0
  and infinity. So there the entry \<open>0\<close> for the frequency is counted as an error and the
  entry \<open>1000\<close> is not (\<open>noise_entries_tsx\<close>).
\<close>

theorem noise_reference_tsx:
  "waveform noiseChannel = ''noise''
   \<and> corr_tsx noiseChannel Freq = Fin 1000
   \<and> corr_tsx noiseChannel Period = Fin (1 / 1000)
   \<and> correctValues_jsx noiseChannel Freq = Fin 0
   \<and> correctValues_jsx noiseChannel Period = PInf"
  by (simp add: channel_defs corr_tsx_def correctValues_jsx_def)

lemma noise_entries_tsx:
  "fieldFails_tsx [Freq \<mapsto> ''0''] (corr_tsx noiseChannel) Freq tolF
   \<and> \<not> fieldFails_tsx [Freq \<mapsto> ''1000''] (corr_tsx noiseChannel) Freq tolF
   \<and> checkField_jsx [Freq \<mapsto> ''0''] (correctValues_jsx noiseChannel) Freq tolF
   \<and> \<not> checkField_jsx [Freq \<mapsto> ''1000''] (correctValues_jsx noiseChannel) Freq tolF"
  by (simp add: channel_defs corr_tsx_def correctValues_jsx_def parseFloat_defs
      checkField_jsx_def fieldFails_tsx_def relErr_Fin tolF_def)

section \<open>Waveform generator: the random terms\<close>

lemma nonzeroDraw_now: "rnd i \<noteq> 0 \<Longrightarrow> nonzeroDraw rnd i = Some (rnd i, Suc i)"
  by (subst nonzeroDraw.simps) simp

lemma nonzeroDraw_skip: "rnd i = 0 \<Longrightarrow> nonzeroDraw rnd i = nonzeroDraw rnd (Suc i)"
  by (subst nonzeroDraw.simps) simp

lemma nonzeroDraw_returns:
  "rnd (i + d) \<noteq> 0 \<Longrightarrow> \<exists>u k. nonzeroDraw rnd i = Some (u, k) \<and> i < k"
proof (induction d arbitrary: i)
  case 0
  then show ?case by (simp add: nonzeroDraw_now)
next
  case (Suc d)
  show ?case
  proof (cases "rnd i = 0")
    case True
    from Suc.prems have "rnd (Suc i + d) \<noteq> 0" by simp
    then obtain u k where "nonzeroDraw rnd (Suc i) = Some (u, k)" "Suc i < k"
      using Suc.IH[of "Suc i"] by blast
    with True show ?thesis by (auto simp: nonzeroDraw_skip)
  next
    case False
    then show ?thesis by (simp add: nonzeroDraw_now)
  qed
qed

lemma randn_returns:
  assumes "\<forall>n. \<exists>m\<ge>n. rnd m \<noteq> 0"
  shows "\<exists>g k. randn rnd i = Some (g, k)"
proof -
  from assms obtain m where "m \<ge> i" "rnd m \<noteq> 0" by blast
  then have "rnd (i + (m - i)) \<noteq> 0" by simp
  then obtain u j where u: "nonzeroDraw rnd i = Some (u, j)"
    using nonzeroDraw_returns[of rnd i "m - i"] by blast
  from assms obtain m' where "m' \<ge> j" "rnd m' \<noteq> 0" by blast
  then have "rnd (j + (m' - j)) \<noteq> 0" by simp
  then obtain v k where v: "nonzeroDraw rnd j = Some (v, k)"
    using nonzeroDraw_returns[of rnd j "m' - j"] by blast
  show ?thesis using u v by (simp add: randn_def)
qed

lemma difficultyNoise_base:
  "difficultyNoise ''base'' A None = 0" "difficultyNoise ''base'' A (Some 0) = 0"
  by (simp_all add: difficultyNoise_def)

lemma quiet_jsx_value:
  assumes "difficultyNoise d A nz \<le> 0" "ty \<noteq> ''noise''"
  shows "waveformSample_jsx ty t A f p c d nz rnd i
       = Some (fst (the (waveformSample_jsx ty t A f p c d nz rnd' i')), i)"
  using assms by (simp add: waveformSample_jsx_def Let_def)

lemma quiet_tsx_value:
  assumes "difficultyNoise d A nz \<le> 0" "ty \<noteq> ''noise''"
  shows "waveformSample_tsx ty t A f p c d nz rnd i
       = Some (fst (the (waveformSample_tsx ty t A f p c d nz rnd' i')), i)"
  using assms by (simp add: waveformSample_tsx_def Let_def)

lemma quiet_jsx:
  assumes "difficultyNoise d A nz \<le> 0" "ty \<noteq> ''noise''"
  shows "\<exists>y. \<forall>rnd i. waveformSample_jsx ty t A f p c d nz rnd i = Some (y, i)"
  using quiet_jsx_value[OF assms, where rnd'="\<lambda>n. 0" and i'=0] by blast

lemma quiet_tsx:
  assumes "difficultyNoise d A nz \<le> 0" "ty \<noteq> ''noise''"
  shows "\<exists>y. \<forall>rnd i. waveformSample_tsx ty t A f p c d nz rnd i = Some (y, i)"
  using quiet_tsx_value[OF assms, where rnd'="\<lambda>n. 0" and i'=0] by blast

text \<open>
  Claim C2, as amended. For every waveform kind other than \<open>noise\<close>, with the channel
  noise 0 (or absent) and the difficulty \<open>base\<close>, \<open>waveformSample\<close> is deterministic: it
  returns one value \<open>y\<close> whatever the random source holds, and draws nothing from it. For
  the kind \<open>noise\<close> this fails, as the counterexample after the witness shows: the value
  is \<open>amplitude * (Math.random() * 2 - 1)\<close>, and two successive calls with the same
  arguments on the source \<open>twoDraws\<close> return -1/2 and 1/2.
\<close>

theorem deterministic_without_noise:
  assumes "ty \<noteq> ''noise''" and "nz = None \<or> nz = Some 0"
  shows "(\<exists>y. \<forall>rnd i. waveformSample_jsx ty t A f p c ''base'' nz rnd i = Some (y, i))
       \<and> (\<exists>y. \<forall>rnd i. waveformSample_tsx ty t A f p c ''base'' nz rnd i = Some (y, i))"
proof -
  from assms(2) have "difficultyNoise ''base'' A nz \<le> 0"
    by (auto simp: difficultyNoise_base)
  with assms(1) show ?thesis by (simp add: quiet_jsx quiet_tsx)
qed

theorem deterministic_without_noise_witness:
  "map_option fst (waveformSample_jsx ''square'' (1 / 4) 1 1 0 0 ''base'' (Some 0) twoDraws 0)
     = map_option fst (waveformSample_jsx ''square'' (1 / 4) 1 1 0 0 ''base'' (Some 0) twoDraws 1)
   \<and> map_option fst (waveformSample_tsx ''square'' (1 / 4) 1 1 0 0 ''base'' (Some 0) twoDraws 0)
     = map_option fst (waveformSample_tsx ''square'' (1 / 4) 1 1 0 0 ''base'' (Some 0) twoDraws 1)"
  using deterministic_without_noise [of "''square''" "Some 0" "1 / 4" 1 1 0 0]
  by auto

theorem noise_kind_counterexample:
  "waveformSample_jsx ''noise'' 0 1 1 0 0 ''base'' (Some 0) twoDraws 0 = Some (- 1 / 2, 1)
   \<and> waveformSample_jsx ''noise'' 0 1 1 0 0 ''base'' (Some 0) twoDraws 1 = Some (1 / 2, 2)
   \<and> waveformSample_tsx ''noise'' 0 1 1 0 0 ''base'' (Some 0) twoDraws 0 = Some (- 1 / 2, 1)
   \<and> waveformSample_tsx ''noise'' 0 1 1 0 0 ''base'' (Some 0) twoDraws 1 = Some (1 / 2, 2)"
  by (simp add: waveformSample_jsx_def waveformSample_tsx_def difficultyNoise_base twoDraws_def)

section \<open>Waveform generator: square\<close>

lemma square_quiet:
  assumes "difficultyNoise d A nz \<le> 0"
  shows "waveformSample_jsx ''square'' t A f p c d nz rnd i
           = Some (A * (if sin (2 * pi * f * t + p) \<ge> 0 then 1 else - 1) + c, i)"
    and "waveformSample_tsx ''square'' t A f p c d nz rnd i
           = Some (A * (if sin (2 * pi * f * t + p) \<ge> 0 then 1 else - 1) + c, i)"
  using assms by (simp_all add: waveformSample_jsx_def waveformSample_tsx_def Let_def)

lemma randn_halfDraws: "randn halfDraws i = Some (- sqrt (2 * ln 2), Suc (Suc i))"
proof -
  have d: "nonzeroDraw halfDraws j = Some (1 / 2, Suc j)" for j
    using nonzeroDraw_now[of halfDraws j] by (simp add: halfDraws_def)
  have l: "ln (1 / 2 :: real) = - ln 2"
    by (simp add: ln_div)
  have c: "cos (2 * pi * (1 / 2)) = - 1"
    by simp
  show ?thesis
    unfolding randn_def d option.case prod.case l c by simp
qed


lemma sqrt_2ln2_bounds: "0 < sqrt (2 * ln 2 :: real)" "sqrt (2 * ln 2 :: real) < 2"
proof -
  have pos: "0 < ln (2 :: real)" by simp
  then show "0 < sqrt (2 * ln 2 :: real)" by simp
  have "ln (2 :: real) < 2" using ln_less_self[of "2 :: real"] by simp
  then have "2 * ln (2 :: real) < 4" by simp
  then have "sqrt (2 * ln 2 :: real) < sqrt 4" by (simp only: real_sqrt_less_iff)
  then show "sqrt (2 * ln 2 :: real) < 2" by simp
qed

lemma intermedio_noise: "difficultyNoise ''intermedio'' 1 (Some 0) = 1 / 50"
  by (simp add: difficultyNoise_def)

text \<open>
  Claim C9, as amended. With the channel noise 0 (or absent) and the difficulty \<open>base\<close>,
  the square waveform is \<open>A * sign(sin(\<omega>t + \<phi>)) + dc\<close> with \<open>sign(0) = +1\<close>, and so is
  exactly \<open>A + dc\<close> or \<open>-A + dc\<close> at every time, in both versions and without a draw
  from the random source. The claim as stated puts no condition on the noise: with a
  positive noise term a Gaussian sample is added to the level, and the counterexample
  after the witness evaluates both versions at the difficulty \<open>intermedio\<close>, where the
  value is neither \<open>A + dc\<close> nor \<open>-A + dc\<close>.
\<close>

theorem square_two_levels:
  assumes "nz = None \<or> nz = Some 0"
  shows "waveformSample_jsx ''square'' t A f p c ''base'' nz rnd i
           = Some (A * (if sin (2 * pi * f * t + p) \<ge> 0 then 1 else - 1) + c, i)
       \<and> waveformSample_tsx ''square'' t A f p c ''base'' nz rnd i
           = Some (A * (if sin (2 * pi * f * t + p) \<ge> 0 then 1 else - 1) + c, i)
       \<and> (\<exists>y. waveformSample_jsx ''square'' t A f p c ''base'' nz rnd i = Some (y, i)
              \<and> waveformSample_tsx ''square'' t A f p c ''base'' nz rnd i = Some (y, i)
              \<and> (y = A + c \<or> y = - A + c))"
proof -
  from assms have "difficultyNoise ''base'' A nz \<le> 0"
    by (auto simp: difficultyNoise_base)
  then show ?thesis by (simp add: square_quiet)
qed


theorem square_two_levels_witness:
  "waveformSample_jsx ''square'' (3 / 4) 2 1 0 1 ''base'' (Some 0) halfDraws 0 = Some (- 1, 0)
   \<and> waveformSample_tsx ''square'' (3 / 4) 2 1 0 1 ''base'' (Some 0) halfDraws 0 = Some (- 1, 0)
   \<and> waveformSample_jsx ''square'' 0 2 1 0 1 ''base'' (Some 0) halfDraws 0 = Some (3, 0)
   \<and> waveformSample_tsx ''square'' 0 2 1 0 1 ''base'' (Some 0) halfDraws 0 = Some (3, 0)"
proof -
  have h: "Some (0 :: real) = None \<or> Some (0 :: real) = Some 0"
    by simp
  have e: "(2 * pi * 1 * (3 / 4) + 0 :: real) = 3 / 2 * pi"
    by simp
  have s: "sin (2 * pi * 1 * (3 / 4) + 0) = - 1"
    unfolding e by (rule sin_3over2_pi)
  have e0: "(2 * pi * 1 * 0 + 0 :: real) = 0"
    by simp
  have a: "waveformSample_jsx ''square'' (3 / 4) 2 1 0 1 ''base'' (Some 0) halfDraws 0
             = Some (- 1, 0)
         \<and> waveformSample_tsx ''square'' (3 / 4) 2 1 0 1 ''base'' (Some 0) halfDraws 0
             = Some (- 1, 0)"
    using square_two_levels [OF h, of "3 / 4" 2 1 0 1 halfDraws 0]
    unfolding s by simp
  have b: "waveformSample_jsx ''square'' 0 2 1 0 1 ''base'' (Some 0) halfDraws 0 = Some (3, 0)
         \<and> waveformSample_tsx ''square'' 0 2 1 0 1 ''base'' (Some 0) halfDraws 0 = Some (3, 0)"
    using square_two_levels [OF h, of 0 2 1 0 1 halfDraws 0]
    unfolding e0 sin_zero by simp
  show ?thesis using a b by blast
qed

theorem square_noise_counterexample:
  "waveformSample_jsx ''square'' 0 1 1 0 0 ''intermedio'' (Some 0) halfDraws 0
     = Some (1 - sqrt (2 * ln 2) / 50, 2)
   \<and> waveformSample_tsx ''square'' 0 1 1 0 0 ''intermedio'' (Some 0) halfDraws 0
     = Some (1 - sqrt (2 * ln 2) / 50, 2)
   \<and> 1 - sqrt (2 * ln 2) / 50 \<noteq> (1 + 0 :: real)
   \<and> 1 - sqrt (2 * ln 2) / 50 \<noteq> (- 1 + 0 :: real)"
proof -
  have j: "waveformSample_jsx ''square'' 0 1 1 0 0 ''intermedio'' (Some 0) halfDraws 0
     = Some (1 - sqrt (2 * ln 2) / 50, 2)"
    unfolding waveformSample_jsx_def intermedio_noise Let_def
    by (simp add: randn_halfDraws)
  have t: "waveformSample_tsx ''square'' 0 1 1 0 0 ''intermedio'' (Some 0) halfDraws 0
     = Some (1 - sqrt (2 * ln 2) / 50, 2)"
    unfolding waveformSample_tsx_def intermedio_noise Let_def
    by (simp add: randn_halfDraws)
  have a: "1 - sqrt (2 * ln 2) / 50 \<noteq> (1 + 0 :: real)"
    using sqrt_2ln2_bounds(1) by linarith
  have b: "1 - sqrt (2 * ln 2) / 50 \<noteq> (- 1 + 0 :: real)"
    using sqrt_2ln2_bounds(2) by linarith
  show ?thesis using j t a b by blast
qed

section \<open>Waveform generator: kinds outside the list\<close>

lemma default_branch:
  assumes "ty \<notin> set waveformKinds"
  shows "waveformSample_jsx ty t A f p c d nz rnd i
       = (if difficultyNoise d A nz > 0
          then map_option (\<lambda>(g, j). (A * sin (2 * pi * f * t + p) + c
                                        + g * difficultyNoise d A nz, j)) (randn rnd i)
          else Some (A * sin (2 * pi * f * t + p) + c, i))"
    and "waveformSample_tsx ty t A f p c d nz rnd i
       = (if difficultyNoise d A nz > 0
          then map_option (\<lambda>(g, j). (A * sin (2 * pi * f * t + p)
                                        + g * difficultyNoise d A nz + c, j)) (randn rnd i)
          else Some (A * sin (2 * pi * f * t + p) + c, i))"
  using assms
  by (simp_all add: waveformKinds_def waveformSample_jsx_def waveformSample_tsx_def Let_def
      split: option.split)

lemma sine_branch:
  shows "waveformSample_jsx ''sine'' t A f p c d nz rnd i
       = (if difficultyNoise d A nz > 0
          then map_option (\<lambda>(g, j). (A * sin (2 * pi * f * t + p) + c
                                        + g * difficultyNoise d A nz, j)) (randn rnd i)
          else Some (A * sin (2 * pi * f * t + p) + c, i))"
    and "waveformSample_tsx ''sine'' t A f p c d nz rnd i
       = (if difficultyNoise d A nz > 0
          then map_option (\<lambda>(g, j). (A * sin (2 * pi * f * t + p)
                                        + g * difficultyNoise d A nz + c, j)) (randn rnd i)
          else Some (A * sin (2 * pi * f * t + p) + c, i))"
  by (simp_all add: waveformSample_jsx_def waveformSample_tsx_def Let_def
      split: option.split)

text \<open>
  Claim C10. \<open>waveformSample\<close> is total over the strings that name the kind: a kind outside
  the nine of the list takes the default branch of the switch and returns the sine value
  \<open>amplitude * sin(\<omega>t + \<phi>)\<close> plus dc, plus the noise term \<open>randn() * n\<close> when \<open>n > 0\<close>,
  exactly as the kind \<open>sine\<close> does, in both versions. It returns a value whenever the
  noise term is absent, and with a noise term whenever the random source keeps giving
  nonzero draws (the loops of \<open>randn\<close> wait for them).
\<close>

theorem unknown_kind_is_sine:
  assumes "ty \<notin> set waveformKinds"
  shows "waveformSample_jsx ty t A f p c d nz rnd i
       = (if difficultyNoise d A nz > 0
          then map_option (\<lambda>(g, j). (A * sin (2 * pi * f * t + p) + c
                                        + g * difficultyNoise d A nz, j)) (randn rnd i)
          else Some (A * sin (2 * pi * f * t + p) + c, i))
     \<and> waveformSample_tsx ty t A f p c d nz rnd i
       = (if difficultyNoise d A nz > 0
          then map_option (\<lambda>(g, j). (A * sin (2 * pi * f * t + p)
                                        + g * difficultyNoise d A nz + c, j)) (randn rnd i)
          else Some (A * sin (2 * pi * f * t + p) + c, i))
     \<and> waveformSample_jsx ty t A f p c d nz rnd i
       = waveformSample_jsx ''sine'' t A f p c d nz rnd i
     \<and> waveformSample_tsx ty t A f p c d nz rnd i
       = waveformSample_tsx ''sine'' t A f p c d nz rnd i
     \<and> (difficultyNoise d A nz \<le> 0 \<or> (\<forall>n. \<exists>m\<ge>n. rnd m \<noteq> 0)
          \<longrightarrow> (\<exists>y k. waveformSample_jsx ty t A f p c d nz rnd i = Some (y, k))
            \<and> (\<exists>y k. waveformSample_tsx ty t A f p c d nz rnd i = Some (y, k)))"
proof -
  note b = default_branch[OF assms, of t A f p c d nz rnd i]
  note s = sine_branch[of t A f p c d nz rnd i]
  have r: "difficultyNoise d A nz \<le> 0 \<or> (\<forall>n. \<exists>m\<ge>n. rnd m \<noteq> 0)
          \<longrightarrow> (\<exists>y k. waveformSample_jsx ty t A f p c d nz rnd i = Some (y, k))
            \<and> (\<exists>y k. waveformSample_tsx ty t A f p c d nz rnd i = Some (y, k))"
  proof
    assume h: "difficultyNoise d A nz \<le> 0 \<or> (\<forall>n. \<exists>m\<ge>n. rnd m \<noteq> 0)"
    show "(\<exists>y k. waveformSample_jsx ty t A f p c d nz rnd i = Some (y, k))
            \<and> (\<exists>y k. waveformSample_tsx ty t A f p c d nz rnd i = Some (y, k))"
    proof (cases "difficultyNoise d A nz > 0")
      case False
      then show ?thesis by (simp add: b)
    next
      case True
      with h have "\<forall>n. \<exists>m\<ge>n. rnd m \<noteq> 0" by auto
      from randn_returns[OF this, of i] obtain g k where "randn rnd i = Some (g, k)" by blast
      with True show ?thesis by (simp add: b)
    qed
  qed
  show ?thesis using b s r by simp
qed

theorem unknown_kind_is_sine_witness:
  "''cosine'' \<notin> set waveformKinds
   \<and> waveformSample_jsx ''cosine'' 0 2 1 0 1 ''base'' (Some 0) halfDraws 0 = Some (1, 0)
   \<and> waveformSample_tsx ''cosine'' 0 2 1 0 1 ''base'' (Some 0) halfDraws 0 = Some (1, 0)"
proof -
  have k: "''cosine'' \<notin> set waveformKinds"
    by (simp add: waveformKinds_def)
  show ?thesis
    using unknown_kind_is_sine [OF k, of 0 2 1 0 1 "''base''" "Some 0" halfDraws 0] k
    by (simp add: difficultyNoise_base)
qed

section \<open>Waveform generator: sum of two harmonics\<close>

lemma sum2_tsx:
  assumes "difficultyNoise d A nz \<le> 0"
  shows "waveformSample_tsx ''sum2'' t A f p c d nz rnd i
       = Some (A * ((sin (2 * pi * f * t + p) + 0.5 * sin (2 * (2 * pi * f) * t + 2 * p)) / NORM)
               + c, i)"
  using assms by (simp add: waveformSample_tsx_def Let_def)

lemma sum2_jsx:
  assumes "difficultyNoise d A nz \<le> 0"
  shows "waveformSample_jsx ''sum2'' t A f p c d nz rnd i
       = Some (0.6 * A * sin (2 * pi * f * t + p)
               + 0.6 * A * sin (2 * (2 * pi * f) * t + p / 3) + c, i)"
  using assms by (simp add: waveformSample_jsx_def Let_def)

lemma NORM_square: "(27 / 16 :: real) \<le> NORM\<^sup>2" "(0.99 * NORM)\<^sup>2 \<le> (27 / 16 :: real)" "0 < NORM"
  by (simp_all add: NORM_def power2_eq_square)

lemma harmonic_square_bound:
  fixes x :: real
  shows "(sin x + 0.5 * sin (2 * x))\<^sup>2 \<le> 27 / 16"
proof -
  define s where "s = sin x"
  define k where "k = cos x"
  have one: "s\<^sup>2 = 1 - k\<^sup>2"
    using sin_cos_squared_add[of x] unfolding s_def k_def by linarith
  have "sin (2 * x) = 2 * s * k"
    unfolding s_def k_def by (rule sin_double)
  then have "sin x + 0.5 * sin (2 * x) = s * (1 + k)"
    unfolding s_def[symmetric] by (simp add: algebra_simps)
  then have "(sin x + 0.5 * sin (2 * x))\<^sup>2 = s\<^sup>2 * (1 + k)\<^sup>2"
    by (simp add: power_mult_distrib)
  also have "\<dots> = (1 - k\<^sup>2) * (1 + k)\<^sup>2"
    by (simp add: one)
  also have "\<dots> = 27 / 16 - (k - 1 / 2)\<^sup>2 * ((k + 3 / 2)\<^sup>2 + 1 / 2)"
    by (simp add: power2_eq_square field_simps)
  also have "\<dots> \<le> 27 / 16"
  proof -
    have "0 \<le> (k - 1 / 2)\<^sup>2 * ((k + 3 / 2)\<^sup>2 + 1 / 2)"
      by (intro mult_nonneg_nonneg add_nonneg_nonneg) simp_all
    then show ?thesis by linarith
  qed
  finally show ?thesis .
qed

lemma harmonic_peak: "sin (pi / 3) + 0.5 * sin (2 * (pi / 3)) = 3 * sqrt 3 / 4"
proof -
  have "sin (2 * (pi / 3)) = 2 * sin (pi / 3) * cos (pi / 3)"
    by (rule sin_double)
  then show ?thesis by (simp add: sin_60 cos_60)
qed

lemma sum2_unit_tsx:
  "waveformSample_tsx ''sum2'' t 1 f 0 0 ''base'' (Some 0) rnd i
     = Some ((sin (2 * pi * f * t) + 0.5 * sin (2 * (2 * pi * f * t))) / NORM, i)"
proof -
  have q: "difficultyNoise ''base'' 1 (Some 0) \<le> 0"
    by (simp add: difficultyNoise_base)
  have e: "2 * (2 * pi * f) * t + 2 * 0 = 2 * (2 * pi * f * t)"
    by simp
  have z: "2 * pi * f * t + 0 = 2 * pi * f * t"
    by simp
  show ?thesis
    unfolding sum2_tsx[OF q, of t f 0 0 rnd i] e z by simp
qed

lemma harmonic_below_NORM:
  fixes x :: real
  shows "(sin x + 0.5 * sin (2 * x)) / NORM \<le> 1"
proof -
  have "(sin x + 0.5 * sin (2 * x))\<^sup>2 \<le> NORM\<^sup>2"
    using harmonic_square_bound[of x] NORM_square(1) by (rule order_trans)
  moreover have "0 \<le> NORM"
    using NORM_square(3) by (rule less_imp_le)
  ultimately have "sin x + 0.5 * sin (2 * x) \<le> NORM"
    by (rule power2_le_imp_le)
  then show ?thesis
    using NORM_square(3) by (simp only: pos_divide_le_eq mult_1)
qed

lemma harmonic_peak_NORM: "0.99 \<le> (sin (pi / 3) + 0.5 * sin (2 * (pi / 3))) / NORM"
proof -
  have "(3 * sqrt 3 / 4)\<^sup>2 = (27 / 16 :: real)"
    by (simp add: power2_eq_square)
  then have "(0.99 * NORM)\<^sup>2 \<le> (3 * sqrt 3 / 4)\<^sup>2"
    using NORM_square(2) by (simp only:)
  moreover have "0 \<le> 3 * sqrt 3 / (4 :: real)"
    by simp
  ultimately have "0.99 * NORM \<le> 3 * sqrt 3 / 4"
    by (rule power2_le_imp_le)
  then show ?thesis
    unfolding harmonic_peak using NORM_square(3) by (simp only: pos_le_divide_eq)
qed

lemma sixth_period:
  fixes f :: real
  assumes "0 < f"
  shows "2 * pi * f * (1 / (6 * f)) = pi / 3" "0 \<le> 1 / (6 * f)" "1 / (6 * f) \<le> 1 / f"
proof -
  from assms have "f \<noteq> 0" by simp
  then show "2 * pi * f * (1 / (6 * f)) = pi / 3" by simp
  from assms show "0 \<le> 1 / (6 * f)" by simp
  from assms have "f \<le> 6 * f" by simp
  with assms show "1 / (6 * f) \<le> 1 / f" by (intro divide_left_mono) simp_all
qed

lemma sum2_peak_tsx:
  assumes "0 < f"
  shows "(\<forall>t. \<exists>y. waveformSample_tsx ''sum2'' t 1 f 0 0 ''base'' (Some 0) rnd i = Some (y, i)
              \<and> y \<le> 1)
       \<and> (\<exists>t y. 0 \<le> t \<and> t \<le> 1 / f
              \<and> waveformSample_tsx ''sum2'' t 1 f 0 0 ''base'' (Some 0) rnd i = Some (y, i)
              \<and> 0.99 \<le> y)"
proof (intro conjI allI)
  fix t
  show "\<exists>y. waveformSample_tsx ''sum2'' t 1 f 0 0 ''base'' (Some 0) rnd i = Some (y, i) \<and> y \<le> 1"
    using sum2_unit_tsx[of t f rnd i] harmonic_below_NORM[of "2 * pi * f * t"] by blast
next
  have "waveformSample_tsx ''sum2'' (1 / (6 * f)) 1 f 0 0 ''base'' (Some 0) rnd i
          = Some ((sin (pi / 3) + 0.5 * sin (2 * (pi / 3))) / NORM, i)"
    using sum2_unit_tsx[of "1 / (6 * f)" f rnd i] unfolding sixth_period(1)[OF assms] .
  then show "\<exists>t y. 0 \<le> t \<and> t \<le> 1 / f
              \<and> waveformSample_tsx ''sum2'' t 1 f 0 0 ''base'' (Some 0) rnd i = Some (y, i)
              \<and> 0.99 \<le> y"
    using sixth_period(2,3)[OF assms] harmonic_peak_NORM by blast
qed

lemma sin_two_thirds_pi: "sin (2 * (pi / 3)) = sqrt 3 / 2"
proof -
  have "sin (2 * (pi / 3)) = 2 * sin (pi / 3) * cos (pi / 3)"
    by (rule sin_double)
  then show ?thesis by (simp add: sin_60 cos_60)
qed

lemma sqrt3_lower: "(17 / 10 :: real) < sqrt 3"
  by (rule real_less_rsqrt) (simp add: power2_eq_square)

text \<open>
  Claim C1: with the channel noise 0 and the difficulty \<open>base\<close>, the kind \<open>sum2\<close> is
  \<open>A * (sin(\<omega>t + \<phi>) + 0.5 * sin(2\<omega>t + 2\<phi>)) / 1.299038105676658 + dc\<close>, and for
  \<open>A = 1\<close>, \<open>\<phi> = 0\<close>, \<open>dc = 0\<close> its maximum over a period is within 1% of 1. The
  version with type annotations computes this (\<open>sum2_tsx\<close>), and its values stay below 1
  and reach 0.99 within each period (\<open>sum2_peak_tsx\<close>). The JavaScript version computes
  \<open>0.6 * A * sin(\<omega>t + \<phi>) + 0.6 * A * sin(2\<omega>t + \<phi>/3) + dc\<close> instead (\<open>sum2_jsx\<close>).
  Evaluated with \<open>A = 1\<close>, \<open>f = 1\<close>, \<open>\<phi> = 0\<close>, \<open>dc = 0\<close>: at \<open>t = 1/4\<close> it returns 3/5
  where the formula of the claim, and the other version, give \<open>1 / 1.299038105676658\<close>;
  at \<open>t = 1/6\<close> it returns \<open>3 * sqrt 3 / 5\<close>, which is more than 1.01.
\<close>

theorem sum2_jsx_not_normalised:
  "waveformSample_jsx ''sum2'' (1 / 4) 1 1 0 0 ''base'' (Some 0) halfDraws 0 = Some (3 / 5, 0)
   \<and> waveformSample_tsx ''sum2'' (1 / 4) 1 1 0 0 ''base'' (Some 0) halfDraws 0
       = Some (1 / NORM, 0)
   \<and> (3 / 5 :: real) \<noteq> 1 / NORM
   \<and> waveformSample_jsx ''sum2'' (1 / 6) 1 1 0 0 ''base'' (Some 0) halfDraws 0
       = Some (3 * sqrt 3 / 5, 0)
   \<and> (1.01 :: real) < 3 * sqrt 3 / 5"
proof -
  have q: "difficultyNoise ''base'' 1 (Some 0) \<le> 0"
    by (simp add: difficultyNoise_base)
  have a1: "2 * pi * 1 * (1 / 4) + 0 = pi / 2" and a2: "2 * (2 * pi * 1) * (1 / 4) + 0 / 3 = pi"
    and a3: "2 * (2 * pi * 1 * (1 / 4)) = pi" and a4: "2 * pi * 1 * (1 / 4) = pi / 2"
    by simp_all
  have b1: "2 * pi * 1 * (1 / 6) + 0 = pi / 3"
    and b2: "2 * (2 * pi * 1) * (1 / 6) + 0 / 3 = 2 * (pi / 3)"
    by simp_all
  have j4: "waveformSample_jsx ''sum2'' (1 / 4) 1 1 0 0 ''base'' (Some 0) halfDraws 0
      = Some (3 / 5, 0)"
    unfolding sum2_jsx[OF q, of "1 / 4" 1 0 0 halfDraws 0] a1 a2 sin_pi_half sin_pi by simp
  have t4: "waveformSample_tsx ''sum2'' (1 / 4) 1 1 0 0 ''base'' (Some 0) halfDraws 0
      = Some (1 / NORM, 0)"
    unfolding sum2_unit_tsx[of "1 / 4" 1 halfDraws 0] a3 a4 sin_pi_half sin_pi by simp
  have ne: "(3 / 5 :: real) \<noteq> 1 / NORM"
    by (simp add: NORM_def)
  have j6: "waveformSample_jsx ''sum2'' (1 / 6) 1 1 0 0 ''base'' (Some 0) halfDraws 0
      = Some (3 * sqrt 3 / 5, 0)"
    unfolding sum2_jsx[OF q, of "1 / 6" 1 0 0 halfDraws 0] b1 b2 sin_60 sin_two_thirds_pi
    by simp
  have big: "(1.01 :: real) < 3 * sqrt 3 / 5"
    using sqrt3_lower by simp
  show ?thesis using j4 t4 ne j6 big by blast
qed

section \<open>Canvas: grid\<close>

lemma jsRound_bounds: "x < jsRound x + 1 / 2" "jsRound x + 1 / 2 \<le> x + 1"
  unfolding jsRound_def by linarith+

lemma grid_tsx_vertical:
  assumes "i \<le> durationDivs sh"
  shows "grid_tsx sh ! i
       = ((jsRound (real i * (width / real (durationDivs sh))) + 1 / 2, 0),
          (jsRound (real i * (width / real (durationDivs sh))) + 1 / 2, height))"
proof -
  have "i < length (map (\<lambda>i. let x = jsRound (real i * (width / real (durationDivs sh))) + 0.5
                             in ((x, 0 :: real), (x, height))) [0..<Suc (durationDivs sh)])"
    using assms by simp
  then show ?thesis
    using assms unfolding grid_tsx_def Let_def
    by (simp add: nth_append del: upt_Suc)
qed

lemma grid_tsx_horizontal:
  assumes "j \<le> verticalDivs sh"
  shows "grid_tsx sh ! (Suc (durationDivs sh) + j)
       = ((0, jsRound (real j * (height / real (verticalDivs sh))) + 1 / 2),
          (width, jsRound (real j * (height / real (verticalDivs sh))) + 1 / 2))"
  using assms unfolding grid_tsx_def Let_def
  by (simp add: nth_append del: upt_Suc)

lemma grid_jsx_vertical:
  assumes "i \<le> durationDivs sh"
  shows "grid_jsx sh ! i
       = ((real i * (width / real (durationDivs sh)), 0),
          (real i * (width / real (durationDivs sh)), height))"
  using assms unfolding grid_jsx_def Let_def
  by (simp add: nth_append del: upt_Suc)

lemma grid_length:
  "length (grid_tsx sh) = Suc (durationDivs sh) + Suc (verticalDivs sh)"
  "length (grid_jsx sh) = Suc (durationDivs sh) + Suc (verticalDivs sh)"
  unfolding grid_tsx_def grid_jsx_def Let_def by simp_all

text \<open>
  Claim C5, as amended. In the version with type annotations the grid line of index \<open>i\<close>,
  evenly spaced at \<open>p = i * W / divisions\<close>, is drawn at \<open>round(p) + 0.5\<close>: a half-integer
  coordinate, the one with \<open>p < x \<le> p + 1\<close>; the horizontal lines likewise with \<open>H\<close>
  and the vertical divisions. For width 980 and 10 horizontal divisions the vertical line
  of index 5 is at \<open>round(5 * 98) + 0.5 = 490.5\<close>. This is not always the half-integer
  nearest to \<open>p\<close>: the counterexample after the witness has three horizontal divisions,
  where the line of index 1, at \<open>p = 326.67\<close>, is drawn at 327.5 although 326.5 is nearer.
  (The JavaScript version draws each grid line at \<open>p\<close> itself, \<open>grid_jsx_vertical\<close>: the
  line of index 5 of its initial state is at 490, \<open>grid_jsx_unsnapped\<close>.)
\<close>

theorem grid_lines_snapped:
  assumes "0 < durationDivs sh" and "0 < verticalDivs sh"
    and "i \<le> durationDivs sh" and "j \<le> verticalDivs sh"
  shows "(let p = real i * (width / real (durationDivs sh)); x = jsRound p + 1 / 2
          in grid_tsx sh ! i = ((x, 0), (x, height))
             \<and> x - 1 / 2 \<in> \<int> \<and> p < x \<and> x \<le> p + 1)
       \<and> (let q = real j * (height / real (verticalDivs sh)); y = jsRound q + 1 / 2
          in grid_tsx sh ! (Suc (durationDivs sh) + j) = ((0, y), (width, y))
             \<and> y - 1 / 2 \<in> \<int> \<and> q < y \<and> y \<le> q + 1)
       \<and> (durationDivs sh = 10 \<and> i = 5 \<longrightarrow> grid_tsx sh ! i = ((490.5, 0), (490.5, 520)))"
proof -
  have z: "jsRound u + 1 / 2 - 1 / 2 \<in> \<int>" for u
    by (simp add: jsRound_def)
  have five: "durationDivs sh = 10 \<and> i = 5 \<longrightarrow> grid_tsx sh ! i = ((490.5, 0), (490.5, 520))"
  proof
    assume h: "durationDivs sh = 10 \<and> i = 5"
    have "jsRound (real 5 * (width / real 10)) = 490"
      by (simp add: jsRound_def width_def)
    then show "grid_tsx sh ! i = ((490.5, 0), (490.5, 520))"
      using grid_tsx_vertical[OF assms(3)] h by (simp add: height_def)
  qed
  show ?thesis
    unfolding Let_def
    using grid_tsx_vertical[OF assms(3)] grid_tsx_horizontal[OF assms(4)] jsRound_bounds z five
    by blast
qed

theorem grid_lines_snapped_witness:
  "grid_tsx defaultSharedState_tsx ! 5 = ((490.5, 0), (490.5, 520))
   \<and> grid_tsx defaultSharedState_tsx ! (Suc (durationDivs defaultSharedState_tsx) + 1)
       = ((0, 52.5), (980, 52.5))"
proof -
  have d: "durationDivs defaultSharedState_tsx = 10" "verticalDivs defaultSharedState_tsx = 10"
    by (simp_all add: defaultSharedState_tsx_def)
  show ?thesis
    using grid_lines_snapped [of defaultSharedState_tsx 5 1]
    unfolding d Let_def by (simp add: width_def height_def jsRound_def)
qed

theorem grid_nearest_counterexample:
  "grid_tsx threeDivisions ! 1 = ((327.5, 0), (327.5, 520))
   \<and> \<bar>326.5 - 1 * (width / 3)\<bar> < \<bar>327.5 - 1 * (width / 3)\<bar>"
proof -
  have d: "durationDivs threeDivisions = 3"
    by (simp add: threeDivisions_def defaultSharedState_tsx_def)
  have r: "jsRound (real 1 * (width / real 3)) = 327"
    by (simp add: jsRound_def width_def)
  have "grid_tsx threeDivisions ! 1 = ((327.5, 0), (327.5, 520))"
    using grid_tsx_vertical[of 1 threeDivisions] unfolding d r by (simp add: height_def)
  then show ?thesis by (simp add: width_def)
qed

lemma grid_jsx_unsnapped: "grid_jsx defaultSharedState_jsx ! 5 = ((490, 0), (490, 520))"
proof -
  have d: "durationDivs defaultSharedState_jsx = 10"
    by (simp add: defaultSharedState_jsx_def)
  show ?thesis
    using grid_jsx_vertical[of 5 defaultSharedState_jsx] unfolding d
    by (simp add: width_def height_def)
qed

section \<open>Canvas: traces\<close>

lemma loopPoints_samples:
  "loopPoints body k i0 s = Some (ps, s') \<Longrightarrow>
   length ps = k \<and> (\<forall>j<k. \<exists>s1 s2. body (i0 + j) s1 = Some (ps ! j, s2))"
proof (induction k arbitrary: i0 s ps)
  case 0
  then show ?case by simp
next
  case (Suc k)
  from Suc.prems obtain p s1 qs where
    b: "body i0 s = Some (p, s1)" and
    l: "loopPoints body k (Suc i0) s1 = Some (qs, s')" and
    ps: "ps = p # qs"
    by (auto split: option.splits)
  from Suc.IH[OF l] have
    len: "length qs = k" and
    rest: "\<forall>j<k. \<exists>s1 s2. body (Suc i0 + j) s1 = Some (qs ! j, s2)"
    by blast+
  have "\<exists>s1 s2. body (i0 + j) s1 = Some (ps ! j, s2)" if "j < Suc k" for j
  proof (cases j)
    case 0
    with b ps show ?thesis by auto
  next
    case (Suc m)
    with that rest ps show ?thesis by auto
  qed
  with len ps show ?case by simp
qed

lemma loopPoints_returns:
  "(\<And>i s. \<exists>p s'. body i s = Some (p, s')) \<Longrightarrow> \<exists>ps s'. loopPoints body k i0 s = Some (ps, s')"
proof (induction k arbitrary: i0 s)
  case 0
  then show ?case by simp
next
  case (Suc k)
  from Suc.prems[of i0 s] obtain p s1 where b: "body i0 s = Some (p, s1)" by blast
  from Suc.IH[OF Suc.prems, of "Suc i0" s1] obtain qs s2
    where "loopPoints body k (Suc i0) s1 = Some (qs, s2)" by blast
  with b show ?case by simp
qed

lemma drawChannels_traces:
  "drawChannels tr chs s = Some (trs, s') \<Longrightarrow>
   length trs = length (filter enabled chs)
   \<and> (\<forall>j<length trs. fst (trs ! j) = color (filter enabled chs ! j)
         \<and> (\<exists>s1 s2. tr (filter enabled chs ! j) s1 = Some (snd (trs ! j), s2)))"
proof (induction chs arbitrary: s trs)
  case Nil
  then show ?case by simp
next
  case (Cons ch chs)
  show ?case
  proof (cases "enabled ch")
    case False
    with Cons show ?thesis by simp
  next
    case True
    with Cons.prems obtain ps s1 rest where
      t: "tr ch s = Some (ps, s1)" and
      d: "drawChannels tr chs s1 = Some (rest, s')" and
      trs: "trs = (color ch, ps) # rest"
      by (auto split: option.splits)
    from Cons.IH[OF d] have
      len: "length rest = length (filter enabled chs)" and
      ih: "\<forall>j<length rest. fst (rest ! j) = color (filter enabled chs ! j)
         \<and> (\<exists>s1 s2. tr (filter enabled chs ! j) s1 = Some (snd (rest ! j), s2))"
      by blast+
    have "fst (trs ! j) = color (filter enabled (ch # chs) ! j)
         \<and> (\<exists>s1 s2. tr (filter enabled (ch # chs) ! j) s1 = Some (snd (trs ! j), s2))"
      if "j < length trs" for j
    proof (cases j)
      case 0
      with True t trs show ?thesis by auto
    next
      case (Suc m)
      with that True ih trs show ?thesis by auto
    qed
    with len trs True show ?thesis by simp
  qed
qed

lemma drawChannels_returns:
  "(\<And>ch s. \<exists>ps s'. tr ch s = Some (ps, s')) \<Longrightarrow> \<exists>trs s'. drawChannels tr chs s = Some (trs, s')"
proof (induction chs arbitrary: s)
  case Nil
  then show ?case by simp
next
  case (Cons ch chs)
  show ?case
  proof (cases "enabled ch")
    case False
    with Cons show ?thesis by simp
  next
    case True
    from Cons.prems[of ch s] obtain ps s1 where t: "tr ch s = Some (ps, s1)" by blast
    from Cons.IH[OF Cons.prems, of s1] obtain rest s2
      where "drawChannels tr chs s1 = Some (rest, s2)" by blast
    with True t show ?thesis by simp
  qed
qed

lemma waveformSample_returns:
  assumes "\<forall>n. \<exists>m\<ge>n. rnd m \<noteq> 0"
  shows "\<exists>y k. waveformSample_jsx ty t A f p c d nz rnd i = Some (y, k)"
    and "\<exists>y k. waveformSample_tsx ty t A f p c d nz rnd i = Some (y, k)"
proof -
  from randn_returns[OF assms, of i] obtain g k where a: "randn rnd i = Some (g, k)"
    by blast
  from randn_returns[OF assms, of "Suc i"] obtain g' k' where b: "randn rnd (Suc i) = Some (g', k')"
    by blast
  show "\<exists>y k. waveformSample_jsx ty t A f p c d nz rnd i = Some (y, k)"
    by (simp add: waveformSample_jsx_def Let_def a b)
  show "\<exists>y k. waveformSample_tsx ty t A f p c d nz rnd i = Some (y, k)"
    by (simp add: waveformSample_tsx_def Let_def a b)
qed

lemma samplePoint_jsx_maps:
  assumes "samplePoint_jsx sh vw ch rnd i s1 = Some (pt, s2)"
  shows "\<exists>yV. waveformSample_jsx (waveform ch) (sampleTime sh vw (sampleCount_jsx sh vw) i)
              (amplitude ch) (frequency ch) (phase ch) (dc ch) (difficulty sh) (noise ch) rnd s1
            = Some (yV, s2)
          \<and> pt = (pixelX (sampleCount_jsx sh vw) i, pixelY sh vw yV)"
  using assms
  by (auto simp: samplePoint_jsx_def sampleTime_def pixelX_def pixelY_def totalTime_def Let_def
      split: option.splits)

lemma samplePoint_tsx_maps:
  assumes "samplePoint_tsx sh vw ch rnd i s1 = Some (pt, s2)"
  shows "\<exists>yV. waveformSample_tsx (waveform ch) (sampleTime sh vw (sampleCount_tsx sh vw) i)
              (amplitude ch) (frequency ch) (phase ch) (dc ch) (difficulty sh) (noise ch) rnd s1
            = Some (yV, s2)
          \<and> pt = (jsRound (pixelX (sampleCount_tsx sh vw) i) + 1 / 2,
                  jsRound (pixelY sh vw yV) + 1 / 2)"
  using assms
  by (auto simp: samplePoint_tsx_def sampleTime_def pixelX_def pixelY_def totalTime_def Let_def
      split: option.splits)

lemma samplePoint_returns:
  assumes "\<forall>n. \<exists>m\<ge>n. rnd m \<noteq> 0"
  shows "\<exists>pt s'. samplePoint_jsx sh vw ch rnd i s = Some (pt, s')"
    and "\<exists>pt s'. samplePoint_tsx sh vw ch rnd i s = Some (pt, s')"
proof -
  let ?t = "real i / (real_of_int (sampleCount_jsx sh vw) - 1) * totalTime sh vw + tOffset vw"
  let ?u = "real i / (real_of_int (sampleCount_tsx sh vw) - 1) * totalTime sh vw + tOffset vw"
  from waveformSample_returns(1)[OF assms] obtain y k where
    "waveformSample_jsx (waveform ch) ?t (amplitude ch) (frequency ch) (phase ch) (dc ch)
       (difficulty sh) (noise ch) rnd s = Some (y, k)"
    by blast
  then show "\<exists>pt s'. samplePoint_jsx sh vw ch rnd i s = Some (pt, s')"
    by (simp add: samplePoint_jsx_def Let_def)
  from waveformSample_returns(2)[OF assms] obtain y' k' where
    "waveformSample_tsx (waveform ch) ?u (amplitude ch) (frequency ch) (phase ch) (dc ch)
       (difficulty sh) (noise ch) rnd s = Some (y', k')"
    by blast
  then show "\<exists>pt s'. samplePoint_tsx sh vw ch rnd i s = Some (pt, s')"
    by (simp add: samplePoint_tsx_def Let_def)
qed

lemma channelTrace_jsx_points:
  assumes "channelTrace_jsx sh vw rnd ch s = Some (pts, s')"
  shows "length pts = nat (sampleCount_jsx sh vw)
       \<and> (\<forall>i<nat (sampleCount_jsx sh vw). \<exists>yV s1 s2.
             waveformSample_jsx (waveform ch) (sampleTime sh vw (sampleCount_jsx sh vw) i)
               (amplitude ch) (frequency ch) (phase ch) (dc ch) (difficulty sh) (noise ch) rnd s1
             = Some (yV, s2)
           \<and> pts ! i = (pixelX (sampleCount_jsx sh vw) i, pixelY sh vw yV))"
proof -
  note l = loopPoints_samples[OF assms[unfolded channelTrace_jsx_def]]
  have "\<exists>yV s1 s2.
             waveformSample_jsx (waveform ch) (sampleTime sh vw (sampleCount_jsx sh vw) i)
               (amplitude ch) (frequency ch) (phase ch) (dc ch) (difficulty sh) (noise ch) rnd s1
             = Some (yV, s2)
           \<and> pts ! i = (pixelX (sampleCount_jsx sh vw) i, pixelY sh vw yV)"
    if "i < nat (sampleCount_jsx sh vw)" for i
  proof -
    from l that obtain s1 s2 where "samplePoint_jsx sh vw ch rnd i s1 = Some (pts ! i, s2)"
      by auto
    from samplePoint_jsx_maps[OF this] show ?thesis by blast
  qed
  with l show ?thesis by blast
qed

lemma channelTrace_tsx_points:
  assumes "channelTrace_tsx sh vw rnd ch s = Some (pts, s')"
  shows "length pts = nat (sampleCount_tsx sh vw)
       \<and> (\<forall>i<nat (sampleCount_tsx sh vw). \<exists>yV s1 s2.
             waveformSample_tsx (waveform ch) (sampleTime sh vw (sampleCount_tsx sh vw) i)
               (amplitude ch) (frequency ch) (phase ch) (dc ch) (difficulty sh) (noise ch) rnd s1
             = Some (yV, s2)
           \<and> pts ! i = (jsRound (pixelX (sampleCount_tsx sh vw) i) + 1 / 2,
                        jsRound (pixelY sh vw yV) + 1 / 2))"
proof -
  note l = loopPoints_samples[OF assms[unfolded channelTrace_tsx_def]]
  have "\<exists>yV s1 s2.
             waveformSample_tsx (waveform ch) (sampleTime sh vw (sampleCount_tsx sh vw) i)
               (amplitude ch) (frequency ch) (phase ch) (dc ch) (difficulty sh) (noise ch) rnd s1
             = Some (yV, s2)
           \<and> pts ! i = (jsRound (pixelX (sampleCount_tsx sh vw) i) + 1 / 2,
                        jsRound (pixelY sh vw yV) + 1 / 2)"
    if "i < nat (sampleCount_tsx sh vw)" for i
  proof -
    from l that obtain s1 s2 where "samplePoint_tsx sh vw ch rnd i s1 = Some (pts ! i, s2)"
      by auto
    from samplePoint_tsx_maps[OF this] show ?thesis by blast
  qed
  with l show ?thesis by blast
qed

lemma sampleCount_unfold:
  "sampleCount_jsx sh vw = max 1000 \<lfloor>sampleRate sh * (sPerDiv vw * real (durationDivs sh))\<rfloor>"
  "sampleCount_tsx sh vw = max 2000 \<lfloor>sampleRate sh * (sPerDiv vw * real (durationDivs sh))\<rfloor>"
  by (simp_all add: sampleCount_jsx_def sampleCount_tsx_def totalTime_def)

lemma ScopeCanvas_returns:
  assumes "\<forall>n. \<exists>m\<ge>n. rnd m \<noteq> 0"
  shows "\<exists>d s'. ScopeCanvas_jsx sh vw rnd s = Some (d, s')"
    and "\<exists>d s'. ScopeCanvas_tsx sh vw rnd s = Some (d, s')"
proof -
  have "\<exists>ps s'. channelTrace_jsx sh vw rnd ch s0 = Some (ps, s')" for ch s0
    unfolding channelTrace_jsx_def
    by (rule loopPoints_returns) (rule samplePoint_returns(1)[OF assms])
  from drawChannels_returns[of "channelTrace_jsx sh vw rnd" "channels sh" s, OF this]
  show "\<exists>d s'. ScopeCanvas_jsx sh vw rnd s = Some (d, s')"
    by (auto simp: ScopeCanvas_jsx_def)
  have "\<exists>ps s'. channelTrace_tsx sh vw rnd ch s0 = Some (ps, s')" for ch s0
    unfolding channelTrace_tsx_def
    by (rule loopPoints_returns) (rule samplePoint_returns(2)[OF assms])
  from drawChannels_returns[of "channelTrace_tsx sh vw rnd" "channels sh" s, OF this]
  show "\<exists>d s'. ScopeCanvas_tsx sh vw rnd s = Some (d, s')"
    by (auto simp: ScopeCanvas_tsx_def)
qed

lemma ScopeCanvas_jsx_trace:
  assumes "ScopeCanvas_jsx sh vw rnd s = Some (d, s')"
    and "j < length (filter enabled (channels sh))"
  shows "length (traces d) = length (filter enabled (channels sh))
       \<and> fst (traces d ! j) = color (filter enabled (channels sh) ! j)
       \<and> (\<exists>s1 s2. channelTrace_jsx sh vw rnd (filter enabled (channels sh) ! j) s1
                      = Some (snd (traces d ! j), s2))"
proof -
  from assms(1) obtain trs where
    dr: "drawChannels (channelTrace_jsx sh vw rnd) (channels sh) s = Some (trs, s')"
    and d: "traces d = trs"
    by (auto simp: ScopeCanvas_jsx_def split: option.splits)
  from drawChannels_traces[OF dr] assms(2) d show ?thesis by auto
qed

lemma ScopeCanvas_tsx_trace:
  assumes "ScopeCanvas_tsx sh vw rnd s = Some (d, s')"
    and "j < length (filter enabled (channels sh))"
  shows "length (traces d) = length (filter enabled (channels sh))
       \<and> fst (traces d ! j) = color (filter enabled (channels sh) ! j)
       \<and> (\<exists>s1 s2. channelTrace_tsx sh vw rnd (filter enabled (channels sh) ! j) s1
                      = Some (snd (traces d ! j), s2))"
proof -
  from assms(1) obtain trs where
    dr: "drawChannels (channelTrace_tsx sh vw rnd) (channels sh) s = Some (trs, s')"
    and d: "traces d = trs"
    by (auto simp: ScopeCanvas_tsx_def split: option.splits)
  from drawChannels_traces[OF dr] assms(2) d show ?thesis by auto
qed

lemma halfDraws_fair: "\<forall>n. \<exists>m\<ge>n. halfDraws m \<noteq> 0"
  by (auto simp: halfDraws_def)

lemma default_enabled:
  "filter enabled (channels defaultSharedState_jsx) = [hd defaultChannels]"
  "filter enabled (channels defaultSharedState_tsx) = [hd defaultChannels]"
  by (simp_all add: defaultSharedState_jsx_def defaultSharedState_tsx_def defaultChannels_def)

lemma default_counts:
  "sampleCount_jsx defaultSharedState_jsx defaultView = 1000"
  "sampleCount_tsx defaultSharedState_tsx defaultView = 2000"
  by (simp_all add: sampleCount_unfold defaultSharedState_jsx_def defaultSharedState_tsx_def
      defaultView_def)

text \<open>
  Claim C4, as amended. For every enabled channel the renderer takes
  \<open>N = max(floor constant, floor(sampleRate * totalTime))\<close> samples, with
  \<open>totalTime = sPerDiv * durationDivs\<close> and the constant 1000 in the JavaScript version and
  2000 in the other. Sample \<open>i\<close> of \<open>[0, N)\<close> is taken at the time
  \<open>t = (i / (N - 1)) * totalTime + tOffset\<close>, and mapped to the pixel
  \<open>x = (i / (N - 1)) * W\<close>, \<open>y = H/2 - ((voltage - vOffset) / vPerDiv) * (H / verticalDivs)\<close>.
  The JavaScript version draws the point \<open>(x, y)\<close>; the other version draws the point
  \<open>(round(x) + 0.5, round(y) + 0.5)\<close>, which is why the claim as stated fails there (the
  counterexample after the witness: sample 1 of 2000 is drawn at \<open>x = 0.5\<close>, not at
  \<open>980 / 1999\<close>). The traces come in the order of the enabled channels, each with the
  colour of its channel, and the canvas is drawn whenever the random source keeps giving
  nonzero draws.
\<close>

theorem trace_mapping:
  assumes "0 < durationDivs sh" and "0 < verticalDivs sh" and "vPerDiv vw \<noteq> 0"
    and "j < length (filter enabled (channels sh))"
  shows "sampleCount_jsx sh vw
           = max 1000 \<lfloor>sampleRate sh * (sPerDiv vw * real (durationDivs sh))\<rfloor>
       \<and> sampleCount_tsx sh vw
           = max 2000 \<lfloor>sampleRate sh * (sPerDiv vw * real (durationDivs sh))\<rfloor>
       \<and> (ScopeCanvas_jsx sh vw rnd s = Some (d, s') \<longrightarrow>
            (let ch = filter enabled (channels sh) ! j; N = sampleCount_jsx sh vw;
                 pts = snd (traces d ! j)
             in length (traces d) = length (filter enabled (channels sh))
                \<and> fst (traces d ! j) = color ch
                \<and> length pts = nat N
                \<and> (\<forall>i<nat N. \<exists>yV s1 s2.
                      waveformSample_jsx (waveform ch) (sampleTime sh vw N i) (amplitude ch)
                        (frequency ch) (phase ch) (dc ch) (difficulty sh) (noise ch) rnd s1
                      = Some (yV, s2)
                    \<and> pts ! i = (pixelX N i, pixelY sh vw yV))))
       \<and> (ScopeCanvas_tsx sh vw rnd s = Some (d, s') \<longrightarrow>
            (let ch = filter enabled (channels sh) ! j; N = sampleCount_tsx sh vw;
                 pts = snd (traces d ! j)
             in length (traces d) = length (filter enabled (channels sh))
                \<and> fst (traces d ! j) = color ch
                \<and> length pts = nat N
                \<and> (\<forall>i<nat N. \<exists>yV s1 s2.
                      waveformSample_tsx (waveform ch) (sampleTime sh vw N i) (amplitude ch)
                        (frequency ch) (phase ch) (dc ch) (difficulty sh) (noise ch) rnd s1
                      = Some (yV, s2)
                    \<and> pts ! i = (jsRound (pixelX N i) + 1 / 2,
                                 jsRound (pixelY sh vw yV) + 1 / 2))))
       \<and> ((\<forall>n. \<exists>m\<ge>n. rnd m \<noteq> 0) \<longrightarrow>
            (\<exists>d s'. ScopeCanvas_jsx sh vw rnd s = Some (d, s'))
            \<and> (\<exists>d s'. ScopeCanvas_tsx sh vw rnd s = Some (d, s')))"
proof (intro conjI impI)
  show "sampleCount_jsx sh vw
           = max 1000 \<lfloor>sampleRate sh * (sPerDiv vw * real (durationDivs sh))\<rfloor>"
    by (rule sampleCount_unfold)
  show "sampleCount_tsx sh vw
           = max 2000 \<lfloor>sampleRate sh * (sPerDiv vw * real (durationDivs sh))\<rfloor>"
    by (rule sampleCount_unfold)
next
  assume c: "ScopeCanvas_jsx sh vw rnd s = Some (d, s')"
  from ScopeCanvas_jsx_trace[OF c assms(4)] obtain s1 s2 where
    a: "length (traces d) = length (filter enabled (channels sh))"
      "fst (traces d ! j) = color (filter enabled (channels sh) ! j)"
    and t: "channelTrace_jsx sh vw rnd (filter enabled (channels sh) ! j) s1
              = Some (snd (traces d ! j), s2)"
    by blast
  from channelTrace_jsx_points[OF t] a
  show "let ch = filter enabled (channels sh) ! j; N = sampleCount_jsx sh vw;
            pts = snd (traces d ! j)
        in length (traces d) = length (filter enabled (channels sh))
           \<and> fst (traces d ! j) = color ch
           \<and> length pts = nat N
           \<and> (\<forall>i<nat N. \<exists>yV s1 s2.
                 waveformSample_jsx (waveform ch) (sampleTime sh vw N i) (amplitude ch)
                   (frequency ch) (phase ch) (dc ch) (difficulty sh) (noise ch) rnd s1
                 = Some (yV, s2)
               \<and> pts ! i = (pixelX N i, pixelY sh vw yV))"
    unfolding Let_def by blast
next
  assume c: "ScopeCanvas_tsx sh vw rnd s = Some (d, s')"
  from ScopeCanvas_tsx_trace[OF c assms(4)] obtain s1 s2 where
    a: "length (traces d) = length (filter enabled (channels sh))"
      "fst (traces d ! j) = color (filter enabled (channels sh) ! j)"
    and t: "channelTrace_tsx sh vw rnd (filter enabled (channels sh) ! j) s1
              = Some (snd (traces d ! j), s2)"
    by blast
  from channelTrace_tsx_points[OF t] a
  show "let ch = filter enabled (channels sh) ! j; N = sampleCount_tsx sh vw;
            pts = snd (traces d ! j)
        in length (traces d) = length (filter enabled (channels sh))
           \<and> fst (traces d ! j) = color ch
           \<and> length pts = nat N
           \<and> (\<forall>i<nat N. \<exists>yV s1 s2.
                 waveformSample_tsx (waveform ch) (sampleTime sh vw N i) (amplitude ch)
                   (frequency ch) (phase ch) (dc ch) (difficulty sh) (noise ch) rnd s1
                 = Some (yV, s2)
               \<and> pts ! i = (jsRound (pixelX N i) + 1 / 2,
                            jsRound (pixelY sh vw yV) + 1 / 2))"
    unfolding Let_def by blast
next
  assume f: "\<forall>n. \<exists>m\<ge>n. rnd m \<noteq> 0"
  show "\<exists>d s'. ScopeCanvas_jsx sh vw rnd s = Some (d, s')"
    by (rule ScopeCanvas_returns(1)[OF f])
  show "\<exists>d s'. ScopeCanvas_tsx sh vw rnd s = Some (d, s')"
    by (rule ScopeCanvas_returns(2)[OF f])
qed

theorem trace_mapping_witness:
  "sampleCount_jsx defaultSharedState_jsx defaultView = 1000
   \<and> (\<exists>d s'. ScopeCanvas_jsx defaultSharedState_jsx defaultView halfDraws 0 = Some (d, s')
          \<and> length (snd (traces d ! 0)) = 1000
          \<and> snd (traces d ! 0) ! 0 = (0, 260))"
proof -
  let ?sh = defaultSharedState_jsx
  let ?vw = defaultView
  have h: "0 < durationDivs ?sh" "0 < verticalDivs ?sh" "vPerDiv ?vw \<noteq> 0"
    "0 < length (filter enabled (channels ?sh))"
    by (simp_all add: defaultSharedState_jsx_def defaultView_def defaultChannels_def)
  note T = trace_mapping [OF h, of halfDraws 0]
  from T halfDraws_fair obtain d s' where
    c: "ScopeCanvas_jsx ?sh ?vw halfDraws 0 = Some (d, s')"
    by blast
  note T' = T[of d s', unfolded Let_def default_enabled nth_Cons_0]
  from T' c have
    len: "length (snd (traces d ! 0)) = nat (sampleCount_jsx ?sh ?vw)" and
    pt: "\<forall>i<nat (sampleCount_jsx ?sh ?vw). \<exists>yV s1 s2.
           waveformSample_jsx (waveform (hd defaultChannels))
             (sampleTime ?sh ?vw (sampleCount_jsx ?sh ?vw) i) (amplitude (hd defaultChannels))
             (frequency (hd defaultChannels)) (phase (hd defaultChannels))
             (dc (hd defaultChannels)) (difficulty ?sh) (noise (hd defaultChannels)) halfDraws s1
           = Some (yV, s2)
         \<and> snd (traces d ! 0) ! i = (pixelX (sampleCount_jsx ?sh ?vw) i, pixelY ?sh ?vw yV)"
    by blast+
  from pt obtain yV s1 s2 where
    w: "waveformSample_jsx (waveform (hd defaultChannels))
             (sampleTime ?sh ?vw (sampleCount_jsx ?sh ?vw) 0) (amplitude (hd defaultChannels))
             (frequency (hd defaultChannels)) (phase (hd defaultChannels))
             (dc (hd defaultChannels)) (difficulty ?sh) (noise (hd defaultChannels)) halfDraws s1
           = Some (yV, s2)" and
    p0: "snd (traces d ! 0) ! 0 = (pixelX (sampleCount_jsx ?sh ?vw) 0, pixelY ?sh ?vw yV)"
    unfolding default_counts by force
  have t0: "sampleTime ?sh ?vw (sampleCount_jsx ?sh ?vw) 0 = 0"
    by (simp add: sampleTime_def defaultView_def)
  have "waveformSample_jsx ''sine'' 0 2 1000 0 0 ''base'' (Some 0) halfDraws s1 = Some (yV, s2)"
    using w unfolding t0 by (simp add: defaultChannels_def defaultSharedState_jsx_def)
  then have y: "yV = 0"
    by (simp add: sine_branch difficultyNoise_base)
  have "pixelX (sampleCount_jsx ?sh ?vw) 0 = 0" "pixelY ?sh ?vw 0 = 260"
    by (simp_all add: pixelX_def pixelY_def defaultView_def defaultSharedState_jsx_def
        height_def)
  with p0 y have "snd (traces d ! 0) ! 0 = (0, 260)"
    by simp
  with c len default_counts(1) show ?thesis by auto
qed

theorem trace_rounding_counterexample:
  "sampleCount_tsx defaultSharedState_tsx defaultView = 2000
   \<and> map_option (\<lambda>r. fst (fst r))
        (samplePoint_tsx defaultSharedState_tsx defaultView (hd defaultChannels) halfDraws 1 0)
       = Some (1 / 2)
   \<and> pixelX 2000 1 = 980 / 1999
   \<and> (1 / 2 :: real) \<noteq> 980 / 1999"
proof -
  have q: "difficultyNoise ''base'' 2 (Some 0) = 0"
    by (rule difficultyNoise_base)
  have r: "jsRound (real 1 / (real_of_int 2000 - 1) * width) = 0"
    by (simp add: jsRound_def width_def)
  have "map_option (\<lambda>r. fst (fst r))
        (samplePoint_tsx defaultSharedState_tsx defaultView (hd defaultChannels) halfDraws 1 0)
       = Some (1 / 2)"
    unfolding samplePoint_tsx_def default_counts Let_def r
    by (simp add: defaultChannels_def defaultSharedState_tsx_def sine_branch q)
  then show ?thesis
    by (simp add: default_counts pixelX_def width_def)
qed

end
